theory Spec2Isabelle
  imports Complex_Main "HOL-Library.AList"
begin

section \<open>RAVE latent-space analysis service: a shallow embedding of rave-latent-to-ds.py\<close>

text \<open>
  The script has three layers: a pipeline (\<open>process_audio_files\<close>), a model probe
  (\<open>get_model_dimensions\<close>) and two OSC handlers that start one thread per request.
  Torch, librosa, scikit-learn, umap-learn and the file system are collaborators whose code
  is not part of the script; they enter the model as the fields of a record of functions
  (\<open>ext\<close>), each returning either an exception or a value. So does the summation
  inside \<open>np.mean\<close>, whose order of additions is numpy's own.

  Numbers: the arrays hold float32 values (torch tensors, and the embeddings that
  scikit-learn's t-SNE and umap-learn return). A float32 is modelled as the real it
  denotes, or one of the two infinities, or NaN; an arithmetic operation of the script is
  the exact operation followed by IEEE 754 rounding to the nearest float32, ties to even.
  The two zeros are one value, as they are for every comparison the script makes.
\<close>

subsection \<open>Exceptions and OSC values\<close>

datatype error =
    IndexError
  | AxisError
  | ValueError
  | AttributeError
  | TypeError
  | Failure string \<comment> \<open>an exception raised inside a collaborator\<close>

text \<open>The argument types python-osc hands to a handler (arrays and MIDI/time tags left out).\<close>

datatype osc_arg =
    OscInt int
  | OscFloat real
  | OscStr string
  | OscBlob string
  | OscBool bool
  | OscNil

text \<open>Python's \<open>bool(x)\<close> on these values.\<close>

fun truthy :: "osc_arg \<Rightarrow> bool" where
  "truthy (OscInt i) = (i \<noteq> 0)"
| "truthy (OscFloat r) = (r \<noteq> 0)"
| "truthy (OscStr s) = (s \<noteq> [])"
| "truthy (OscBlob b) = (b \<noteq> [])"
| "truthy (OscBool b) = b"
| "truthy OscNil = False"

subsection \<open>Strings and paths\<close>

text \<open>
  \<open>str.lower()\<close> on the letters A to Z; file names and paths are taken to be ASCII.
\<close>

definition lower_char :: "char \<Rightarrow> char" where
  "lower_char c =
     (let n = (of_char c :: nat) in if 65 \<le> n \<and> n \<le> 90 then char_of (n + 32) else c)"

definition lower :: "string \<Rightarrow> string" where
  "lower s = map lower_char s"

definition startswith :: "string \<Rightarrow> string \<Rightarrow> bool" where
  "startswith s p = (take (length p) s = p)"

definition endswith :: "string \<Rightarrow> string \<Rightarrow> bool" where
  "endswith s p = (take (length p) (rev s) = rev p)"

text \<open>\<open>os.path.join(a, f)\<close>, \<open>os.path.basename\<close>, \<open>os.path.isabs\<close> (POSIX).\<close>

definition os_path_join :: "string \<Rightarrow> string \<Rightarrow> string" where
  "os_path_join a f =
     (if startswith f ''/'' then f
      else if a = [] \<or> endswith a ''/'' then a @ f
      else a @ ''/'' @ f)"

definition basename :: "string \<Rightarrow> string" where
  "basename p = rev (takeWhile (\<lambda>c. c \<noteq> CHR ''/'') (rev p))"

definition isabs :: "string \<Rightarrow> bool" where
  "isabs p = startswith p ''/''"

text \<open>\<open>s.rfind(c)\<close>: the last index of \<open>c\<close>, \<open>None\<close> for Python's -1.\<close>

definition rfind :: "char \<Rightarrow> string \<Rightarrow> nat option" where
  "rfind c s =
     (if c \<in> set s then Some (length s - 1 - length (takeWhile (\<lambda>d. d \<noteq> c) (rev s)))
      else None)"

text \<open>
  \<open>os.path.splitext\<close>: the extension starts at the last dot of the last path component,
  unless only dots stand before it in that component.
\<close>

definition splitext :: "string \<Rightarrow> string \<times> string" where
  "splitext p =
     (case rfind (CHR ''.'') p of
        None \<Rightarrow> (p, [])
      | Some dotIndex \<Rightarrow>
          (let start = (case rfind (CHR ''/'') p of None \<Rightarrow> 0 | Some sepIndex \<Rightarrow> sepIndex + 1) in
           if start \<le> dotIndex
              \<and> list_ex (\<lambda>c. c \<noteq> CHR ''.'') (take (dotIndex - start) (drop start p))
           then (take dotIndex p, drop dotIndex p)
           else (p, [])))"

text \<open>The key of a file: \<open>os.path.splitext(os.path.basename(audio_file))[0]\<close>.\<close>

definition file_key_of :: "string \<Rightarrow> string" where
  "file_key_of audio_file = fst (splitext (basename audio_file))"

text \<open>Decimal printing of integers, for f-strings.\<close>

fun digits :: "nat \<Rightarrow> string" where
  "digits n =
     (if n < 10 then [char_of (48 + n)] else digits (n div 10) @ [char_of (48 + n mod 10)])"

definition str_int :: "int \<Rightarrow> string" where
  "str_int i = (if i < 0 then CHR ''-'' # digits (nat (- i)) else digits (nat i))"

text \<open>
  The fix for paths sent by Max on macOS:
  \<open>if p.startswith("Macintosh HD:"): p = p.replace("Macintosh HD:", "", 1)\<close>.
  A value without a string's \<open>startswith\<close> raises.
\<close>

definition strip_volume :: "osc_arg \<Rightarrow> error + string" where
  "strip_volume v =
     (case v of
        OscStr p \<Rightarrow>
          Inr (if startswith p ''Macintosh HD:'' then drop (length ''Macintosh HD:'') p else p)
      | OscBlob b \<Rightarrow> Inl TypeError
      | _ \<Rightarrow> Inl AttributeError)"

subsection \<open>float32\<close>

text \<open>
  A float32 value: the real it denotes, an infinity, or NaN. The type admits every real;
  the operations below return only reals that float32 represents.
\<close>

datatype f32 = is_Fin: Fin (val: real) | PInf | NInf | NaN

text \<open>Rounding a real to the nearest integer, a tie to the even one.\<close>

definition rne :: "real \<Rightarrow> int" where
  "rne t = (let f = \<lfloor>t\<rfloor>; d = t - of_int f in
            if d < 1 / 2 then f else if 1 / 2 < d then f + 1 else if even f then f else f + 1)"

text \<open>
  The exponent of the binade of \<open>a\<close>: the largest \<open>e\<close> among -126, ..., \<open>k - 126\<close> with
  \<open>2 ^ e \<le> a\<close>, and -126 (the exponent of the subnormal numbers) when there is none.
\<close>

fun binade :: "nat \<Rightarrow> real \<Rightarrow> int" where
  "binade 0 a = - 126"
| "binade (Suc k) a = (if 2 powi (int (Suc k) - 126) \<le> a then int (Suc k) - 126 else binade k a)"

text \<open>
  Rounding a real to float32: 24 significant bits, so the spacing in the binade of exponent
  \<open>e\<close> is \<open>2 ^ (e - 23)\<close>; a result of magnitude \<open>2 ^ 128\<close> or more is an infinity.
\<close>

definition round32 :: "real \<Rightarrow> f32" where
  "round32 x = (let q = 2 powi (binade 254 \<bar>x\<bar> - 23); y = of_int (rne (x / q)) * q
                in if 2 ^ 128 \<le> \<bar>y\<bar> then (if 0 < x then PInf else NInf) else Fin y)"

fun f32_abs :: "f32 \<Rightarrow> f32" where
  "f32_abs (Fin x) = Fin \<bar>x\<bar>"
| "f32_abs PInf = PInf"
| "f32_abs NInf = PInf"
| "f32_abs NaN = NaN"

text \<open>\<open>np.maximum\<close>, the step of \<open>max()\<close>: NaN wins.\<close>

fun f32_max :: "f32 \<Rightarrow> f32 \<Rightarrow> f32" where
  "f32_max NaN b = NaN"
| "f32_max a NaN = NaN"
| "f32_max PInf b = PInf"
| "f32_max a PInf = PInf"
| "f32_max NInf b = b"
| "f32_max a NInf = a"
| "f32_max (Fin x) (Fin y) = Fin (max x y)"

text \<open>The infinity with the sign of \<open>s\<close>; NaN for \<open>0 * inf\<close> and \<open>0 / 0\<close>.\<close>

definition signed_inf :: "real \<Rightarrow> f32" where
  "signed_inf s = (if s = 0 then NaN else if 0 < s then PInf else NInf)"

fun f32_mul :: "f32 \<Rightarrow> f32 \<Rightarrow> f32" where
  "f32_mul NaN b = NaN"
| "f32_mul a NaN = NaN"
| "f32_mul (Fin x) (Fin y) = round32 (x * y)"
| "f32_mul (Fin x) PInf = signed_inf x"
| "f32_mul (Fin x) NInf = signed_inf (- x)"
| "f32_mul PInf (Fin y) = signed_inf y"
| "f32_mul NInf (Fin y) = signed_inf (- y)"
| "f32_mul PInf PInf = PInf"
| "f32_mul NInf NInf = PInf"
| "f32_mul PInf NInf = NInf"
| "f32_mul NInf PInf = NInf"

text \<open>Division; numpy divides by zero without raising (a RuntimeWarning).\<close>

fun f32_div :: "f32 \<Rightarrow> f32 \<Rightarrow> f32" where
  "f32_div NaN b = NaN"
| "f32_div a NaN = NaN"
| "f32_div (Fin x) (Fin y) = (if y = 0 then signed_inf x else round32 (x / y))"
| "f32_div (Fin x) b = Fin 0"
| "f32_div PInf (Fin y) = (if 0 \<le> y then PInf else NInf)"
| "f32_div NInf (Fin y) = (if 0 \<le> y then NInf else PInf)"
| "f32_div a b = NaN"

subsection \<open>Arrays\<close>

text \<open>
  A numpy array or torch tensor: its shape and its elements in row-major order.
  \<open>wf_array\<close> is the invariant every real array satisfies.
\<close>

datatype ndarray = NDArray (shape: "nat list") (elems: "f32 list")

definition wf_array :: "ndarray \<Rightarrow> bool" where
  "wf_array a = (length (elems a) = prod_list (shape a))"

definition ndim :: "ndarray \<Rightarrow> nat" where
  "ndim a = length (shape a)"

text \<open>\<open>z.squeeze()\<close> drops every axis of length one, not only the first.\<close>

definition squeeze :: "ndarray \<Rightarrow> ndarray" where
  "squeeze a = NDArray (filter (\<lambda>n. n \<noteq> 1) (shape a)) (elems a)"

text \<open>
  \<open>np.mean(z, axis=1)\<close>: for shape \<open>n0 # n1 # rest\<close> the result has shape \<open>n0 # rest\<close>,
  each entry the mean of one slice along axis 1; fewer than two axes raise AxisError.
  \<open>mean1\<close> is numpy's float32 mean of one slice (the order in which it adds is numpy's
  own). An axis of length 0 raises nothing: every slice is empty and its mean is what
  \<open>mean1\<close> gives for the empty slice, NaN in numpy.
\<close>

definition np_mean_axis1 :: "(f32 list \<Rightarrow> f32) \<Rightarrow> ndarray \<Rightarrow> error + ndarray" where
  "np_mean_axis1 mean1 z =
     (case shape z of
        n0 # n1 # rest \<Rightarrow>
          (let inner = prod_list rest in
           Inr (NDArray (n0 # rest)
                  (concat (map (\<lambda>i. map (\<lambda>k.
                      mean1 (map (\<lambda>j. elems z ! ((i * n1 + j) * inner + k)) [0..<n1]))
                    [0..<inner]) [0..<n0]))))
      | _ \<Rightarrow> Inl AxisError)"

text \<open>\<open>np.array(list_of_arrays)\<close>: stacking needs equal shapes.\<close>

definition np_array :: "ndarray list \<Rightarrow> error + ndarray" where
  "np_array vs =
     (case vs of
        [] \<Rightarrow> Inr (NDArray [0] [])
      | v # _ \<Rightarrow>
          if list_all (\<lambda>u. shape u = shape v) vs
          then Inr (NDArray (length vs # shape v) (concat (map elems vs)))
          else Inl ValueError)"

text \<open>\<open>np.abs(a).max()\<close>: raises on an array without elements.\<close>

definition np_abs_max :: "ndarray \<Rightarrow> error + f32" where
  "np_abs_max a =
     (case map f32_abs (elems a) of
        [] \<Rightarrow> Inl ValueError
      | x # xs \<Rightarrow> Inr (foldl f32_max x xs))"

text \<open>\<open>a * c\<close> for a float32 array and a float32 scalar: one rounding per element.\<close>

definition np_mul :: "ndarray \<Rightarrow> f32 \<Rightarrow> ndarray" where
  "np_mul a c = NDArray (shape a) (map (\<lambda>x. f32_mul x c) (elems a))"

text \<open>\<open>a[i]\<close> for a natural index.\<close>

definition np_row :: "ndarray \<Rightarrow> nat \<Rightarrow> error + ndarray" where
  "np_row a i =
     (case shape a of
        [] \<Rightarrow> Inl IndexError
      | n # rest \<Rightarrow>
          if i < n
          then Inr (NDArray rest (take (prod_list rest) (drop (i * prod_list rest) (elems a))))
          else Inl IndexError)"

subsection \<open>Collaborators, the artifact and the observable world\<close>

text \<open>
  The collaborators of the script. \<open>'m\<close> is the loaded model handle. Each field stands
  for the library call named in its comment; \<open>Inl\<close> is the exception it raised.
\<close>

record 'm ext =
  jit_load :: "string \<Rightarrow> error + 'm"
    \<comment> \<open>\<open>torch.jit.load(model_path).to(device)\<close>, then \<open>rave.eval()\<close>\<close>
  listdir :: "string \<Rightarrow> error + string list"
    \<comment> \<open>\<open>os.listdir(audio_dir)\<close>\<close>
  li_load :: "string \<Rightarrow> nat \<Rightarrow> error + real list"
    \<comment> \<open>\<open>librosa.load(audio_file, sr=sr, mono=True)\<close>: the samples\<close>
  rave_encode :: "'m \<Rightarrow> real list \<Rightarrow> error + ndarray"
    \<comment> \<open>\<open>rave.encode\<close> on the samples reshaped to (1, 1, n)\<close>
  np_mean1 :: "f32 list \<Rightarrow> f32"
    \<comment> \<open>the float32 mean of one slice inside \<open>np.mean\<close>; NaN for the empty slice\<close>
  tsne_fit_transform :: "nat \<Rightarrow> ndarray \<Rightarrow> error + ndarray"
    \<comment> \<open>\<open>TSNE(n_components=n, random_state=42).fit_transform\<close>\<close>
  umap_fit_transform :: "nat \<Rightarrow> ndarray \<Rightarrow> error + ndarray"
    \<comment> \<open>\<open>UMAP(n_components=n, random_state=42).fit_transform\<close>\<close>
  pca_fit_transform :: "nat \<Rightarrow> ndarray \<Rightarrow> error + ndarray"
    \<comment> \<open>\<open>PCA(n_components=n).fit_transform\<close>\<close>
  abspath :: "string \<Rightarrow> string"
    \<comment> \<open>\<open>os.path.abspath\<close>\<close>
  open_w :: "string \<Rightarrow> error option"
    \<comment> \<open>\<open>open(path, "w")\<close>: the exception, if the file cannot be opened\<close>
  repr_float :: "real \<Rightarrow> string"
    \<comment> \<open>how an f-string prints a float\<close>
  repr_bytes :: "string \<Rightarrow> string"
    \<comment> \<open>how an f-string prints a bytes object\<close>

text \<open>An insertion-ordered dictionary from file keys to vectors (stored by \<open>tolist()\<close>).\<close>

type_synonym vdict = "(string \<times> ndarray) list"

text \<open>\<open>output_data\<close>: \<open>reduced_data = None\<close> is the absence of that key.\<close>

record artifact =
  cols :: "nat option"
  data :: vdict
  reduced_data :: "vdict option"

text \<open>What \<open>print\<close> writes, one constructor per message of the script.\<close>

datatype log_line =
    LoadingModel string
  | NoAudioFiles string
  | EncodingFiles
  | PerformingTSNE
  | PerformingUMAP
  | PerformingPCA
  | SavedTo string
  | SentPath string string
  | NotEnoughArgs string
  | ProcessingIn string string
  | LoadingForDimensions string
  | ModelHas nat
  | SentDimensions string nat
  | ErrorDimensions error
  | NoModelPath string
  | ReceivedInfoRequest osc_arg

text \<open>A request handed to a thread of its own.\<close>

record job =
  job_model_path :: string
  job_audio_dir :: string
  job_output_json :: "osc_arg option"
  job_method :: osc_arg
  job_skip_dim_reduction :: bool

datatype thread = ProcessThread job | InfoThread osc_arg

text \<open>
  Everything an observer can see: the files written, the OSC messages sent by the
  client, the console, and the threads started so far.
\<close>

record world =
  files :: "(string \<times> artifact) list"
  sent :: "(string \<times> osc_arg) list"
  console :: "log_line list"
  threads :: "thread list"

definition print :: "log_line \<Rightarrow> world \<Rightarrow> world" where
  "print l w = w\<lparr>console := console w @ [l]\<rparr>"

text \<open>\<open>osc_client.send_message(address, value)\<close>: a UDP datagram, fire and forget.\<close>

definition send_message :: "string \<Rightarrow> osc_arg \<Rightarrow> world \<Rightarrow> world" where
  "send_message address v w = w\<lparr>sent := sent w @ [(address, v)]\<rparr>"

definition json_dump :: "string \<Rightarrow> artifact \<Rightarrow> world \<Rightarrow> world" where
  "json_dump path a w = w\<lparr>files := files w @ [(path, a)]\<rparr>"

text \<open>The client handle: the address and port it sends to. An object, so always truthy.\<close>

type_synonym client = "string \<times> nat"

definition client_and_address :: "client option \<Rightarrow> string option \<Rightarrow> bool" where
  "client_and_address osc_client osc_address =
     (osc_client \<noteq> None \<and> (case osc_address of None \<Rightarrow> False | Some a \<Rightarrow> a \<noteq> []))"

subsection \<open>The pipeline: \<open>process_audio_files\<close>\<close>

text \<open>
  The body of the loop over the audio files (lines 60 to 91): the new
  \<open>(latent_data, latent_vectors_all, num_dimensions)\<close>.
\<close>

type_synonym acc = "vdict \<times> ndarray list \<times> nat option"

definition encode_file :: "'m ext \<Rightarrow> 'm \<Rightarrow> nat \<Rightarrow> string \<Rightarrow> acc \<Rightarrow> error + acc" where
  "encode_file ext rave sr audio_file st =
     (case st of (latent_data, latent_vectors_all, num_dimensions) \<Rightarrow>
       (let file_key = file_key_of audio_file in
        (case li_load ext audio_file sr of
           Inl e \<Rightarrow> Inl e
         | Inr x \<Rightarrow>
            (case rave_encode ext rave x of
               Inl e \<Rightarrow> Inl e
             | Inr z0 \<Rightarrow>
                (let z = squeeze z0 in
                 if ndim z = 1 then
                   Inr (AList.update file_key z latent_data, latent_vectors_all @ [z],
                        (if num_dimensions = None then Some 1 else num_dimensions))
                 else
                   (case (if num_dimensions = None
                          then (case shape z of [] \<Rightarrow> Inl IndexError | n # _ \<Rightarrow> Inr (Some n))
                          else Inr num_dimensions) of
                      Inl e \<Rightarrow> Inl e
                    | Inr num_dimensions' \<Rightarrow>
                        (case np_mean_axis1 (np_mean1 ext) z of
                           Inl e \<Rightarrow> Inl e
                         | Inr z_mean \<Rightarrow>
                             Inr (AList.update file_key z_mean latent_data,
                                  latent_vectors_all @ [z_mean], num_dimensions'))))))))"

fun encode_all :: "'m ext \<Rightarrow> 'm \<Rightarrow> nat \<Rightarrow> string list \<Rightarrow> acc \<Rightarrow> error + acc" where
  "encode_all ext rave sr [] st = Inr st"
| "encode_all ext rave sr (f # fs) st =
     (case encode_file ext rave sr f st of
        Inl e \<Rightarrow> Inl e
      | Inr st' \<Rightarrow> encode_all ext rave sr fs st')"

text \<open>
  Lines 111 to 113 and, again, 123 to 125. \<open>max_val\<close> is a float32 scalar, so
  \<open>5.0 / max_val\<close> is rounded to float32 and every product is rounded again. A NaN or
  infinite \<open>max_val\<close> is different from 0 and takes the scaling branch.
\<close>

definition rescale :: "ndarray \<Rightarrow> error + ndarray" where
  "rescale latent_reduced =
     (case np_abs_max latent_reduced of
        Inl e \<Rightarrow> Inl e
      | Inr max_val \<Rightarrow>
          Inr (if max_val \<noteq> Fin 0
               then np_mul latent_reduced (f32_div (Fin 5) max_val) else latent_reduced))"

text \<open>
  \<open>for i, file_key in enumerate(latent_data.keys()):
      output_data["reduced_data"][file_key] = latent_reduced[i].tolist()\<close>
\<close>

fun fill_reduced :: "ndarray \<Rightarrow> nat \<Rightarrow> string list \<Rightarrow> vdict \<Rightarrow> error + vdict" where
  "fill_reduced latent_reduced i [] rd = Inr rd"
| "fill_reduced latent_reduced i (file_key # ks) rd =
     (case np_row latent_reduced i of
        Inl e \<Rightarrow> Inl e
      | Inr row \<Rightarrow> fill_reduced latent_reduced (Suc i) ks (AList.update file_key row rd))"

text \<open>
  Lines 101 to 136. The requested \<open>n_components\<close> is overwritten by 2 before any use, so
  it is not a parameter here. The last branch takes every selector that is neither
  \<open>"tsne"\<close> nor \<open>"umap"\<close>.
\<close>

definition reduction ::
    "'m ext \<Rightarrow> osc_arg \<Rightarrow> vdict \<Rightarrow> ndarray list \<Rightarrow> world \<Rightarrow> (error + vdict) \<times> world" where
  "reduction ext method latent_data latent_vectors_all w =
     (case np_array latent_vectors_all of
        Inl e \<Rightarrow> (Inl e, w)
      | Inr latent_matrix \<Rightarrow>
          let n_components = 2 in
          if method = OscStr ''tsne'' then
            (case tsne_fit_transform ext n_components latent_matrix of
               Inl e \<Rightarrow> Inl e
             | Inr latent_reduced \<Rightarrow>
                 (case rescale latent_reduced of
                    Inl e \<Rightarrow> Inl e
                  | Inr scaled \<Rightarrow> fill_reduced scaled 0 (map fst latent_data) []),
             print PerformingTSNE w)
          else if method = OscStr ''umap'' then
            (case umap_fit_transform ext n_components latent_matrix of
               Inl e \<Rightarrow> Inl e
             | Inr latent_reduced \<Rightarrow>
                 (case rescale latent_reduced of
                    Inl e \<Rightarrow> Inl e
                  | Inr scaled \<Rightarrow> fill_reduced scaled 0 (map fst latent_data) []),
             print PerformingUMAP w)
          else
            (case pca_fit_transform ext n_components latent_matrix of
               Inl e \<Rightarrow> Inl e
             | Inr latent_reduced \<Rightarrow> fill_reduced latent_reduced 0 (map fst latent_data) [],
             print PerformingPCA w))"

text \<open>How an f-string prints a value.\<close>

definition py_str :: "'m ext \<Rightarrow> osc_arg \<Rightarrow> string" where
  "py_str ext v =
     (case v of
        OscStr s \<Rightarrow> s
      | OscInt i \<Rightarrow> str_int i
      | OscFloat r \<Rightarrow> repr_float ext r
      | OscBlob b \<Rightarrow> repr_bytes ext b
      | OscBool b \<Rightarrow> (if b then ''True'' else ''False'')
      | OscNil \<Rightarrow> ''None'')"

text \<open>Lines 139 to 152: the name of the output file.\<close>

definition resolve_output_json ::
    "'m ext \<Rightarrow> osc_arg option \<Rightarrow> string \<Rightarrow> osc_arg \<Rightarrow> bool \<Rightarrow> error + string" where
  "resolve_output_json ext output_json model_path method skip_dim_reduction =
     (let base_name = takeWhile (\<lambda>c. c \<noteq> CHR ''.'') (basename model_path);
          derived =
            (if skip_dim_reduction then ''latent_vectors_'' @ base_name @ ''.json''
             else ''2D_'' @ py_str ext method @ ''_latent_mapping_'' @ base_name @ ''.json'');
          named =
            (case output_json of
               None \<Rightarrow> Inr derived
             | Some OscNil \<Rightarrow> Inr derived
             | Some (OscStr s) \<Rightarrow>
                 Inr (if \<not> endswith (lower s) ''.json'' then s @ ''.json'' else s)
             | Some (OscBlob b) \<Rightarrow> Inl TypeError
             | Some _ \<Rightarrow> Inl AttributeError)
      in case named of
           Inl e \<Rightarrow> Inl e
         | Inr p \<Rightarrow> Inr (if \<not> isabs p then abspath ext p else p))"

text \<open>
  Lines 138 to 165: name the output file, write the artifact, notify. The result is the
  exception that ended the call or the value returned, with the world as the call left it.
\<close>

definition save_output ::
    "'m ext \<Rightarrow> osc_arg option \<Rightarrow> string \<Rightarrow> osc_arg \<Rightarrow> bool \<Rightarrow> client option \<Rightarrow> string option
      \<Rightarrow> artifact \<Rightarrow> world \<Rightarrow> (error + string option) \<times> world" where
  "save_output ext output_json model_path method skip_dim_reduction osc_client osc_address
       output_data w =
     (case resolve_output_json ext output_json model_path method skip_dim_reduction of
        Inl e \<Rightarrow> (Inl e, w)
      | Inr path \<Rightarrow>
         (case open_w ext path of
            Some e \<Rightarrow> (Inl e, w)
          | None \<Rightarrow>
             (let w1 = print (SavedTo path) (json_dump path output_data w);
                  w2 = (if client_and_address osc_client osc_address
                        then print (SentPath (the osc_address) path)
                               (send_message (the osc_address) (OscStr path) w1)
                        else w1)
              in (Inr (Some path), w2))))"

text \<open>
  \<open>process_audio_files\<close>: load the model, list the directory, encode every file, reduce
  unless told to skip, save. \<open>Inr None\<close> is the early \<open>return None\<close>.
\<close>

definition process_audio_files ::
    "'m ext \<Rightarrow> string \<Rightarrow> string \<Rightarrow> osc_arg option \<Rightarrow> nat \<Rightarrow> nat \<Rightarrow> osc_arg \<Rightarrow> bool
      \<Rightarrow> client option \<Rightarrow> string option \<Rightarrow> world \<Rightarrow> (error + string option) \<times> world" where
  "process_audio_files ext model_path audio_dir output_json n_components sr method
       skip_dim_reduction osc_client osc_address w =
     (let w1 = print (LoadingModel model_path) w in
      (case jit_load ext model_path of
         Inl e \<Rightarrow> (Inl e, w1)
       | Inr rave \<Rightarrow>
      (case listdir ext audio_dir of
         Inl e \<Rightarrow> (Inl e, w1)
       | Inr entries \<Rightarrow>
      (let audio_files =
             map (os_path_join audio_dir) (filter (\<lambda>f. endswith (lower f) ''.wav'') entries) in
       if audio_files = [] then (Inr None, print (NoAudioFiles audio_dir) w1)
       else
      (let w2 = print EncodingFiles w1 in
      (case encode_all ext rave sr audio_files ([], [], None) of
         Inl e \<Rightarrow> (Inl e, w2)
       | Inr (latent_data, latent_vectors_all, num_dimensions) \<Rightarrow>
      (let output_data =
             \<lparr>cols = num_dimensions, data = latent_data, reduced_data = None\<rparr> in
       if \<not> skip_dim_reduction then
         (case reduction ext method latent_data latent_vectors_all w2 of
            (Inl e, w3) \<Rightarrow> (Inl e, w3)
          | (Inr rd, w3) \<Rightarrow>
              save_output ext output_json model_path method skip_dim_reduction osc_client
                osc_address (output_data\<lparr>reduced_data := Some rd\<rparr>) w3)
       else
         save_output ext output_json model_path method skip_dim_reduction osc_client
           osc_address output_data w2)))))))"

subsection \<open>The model probe: \<open>get_model_dimensions\<close>\<close>

text \<open>The \<open>try\<close> block (lines 207 to 235).\<close>

definition get_model_dimensions_try ::
    "'m ext \<Rightarrow> osc_arg \<Rightarrow> client option \<Rightarrow> string option \<Rightarrow> world \<Rightarrow> (error + nat) \<times> world" where
  "get_model_dimensions_try ext model_path osc_client osc_address w =
     (case strip_volume model_path of
        Inl e \<Rightarrow> (Inl e, w)
      | Inr p \<Rightarrow>
     (let w1 = print (LoadingForDimensions p) w in
     (case jit_load ext p of
        Inl e \<Rightarrow> (Inl e, w1)
      | Inr rave \<Rightarrow>
     (case rave_encode ext rave (replicate 48000 0) of
        Inl e \<Rightarrow> (Inl e, w1)
      | Inr z \<Rightarrow>
     (if 1 < length (shape z) then
        (let latent_dim = shape z ! 1;
             w2 = print (ModelHas latent_dim) w1;
             w3 = (if client_and_address osc_client osc_address
                   then print (SentDimensions (the osc_address) latent_dim)
                          (send_message (the osc_address) (OscInt (int latent_dim)) w2)
                   else w2)
         in (Inr latent_dim, w3))
      else (Inl IndexError, w1))))))"

text \<open>
  The whole function: \<open>except Exception\<close> turns every exception of the block into the
  message -1 and the return value \<open>None\<close>.
\<close>

definition get_model_dimensions ::
    "'m ext \<Rightarrow> osc_arg \<Rightarrow> client option \<Rightarrow> string option \<Rightarrow> world
      \<Rightarrow> (error + nat option) \<times> world" where
  "get_model_dimensions ext model_path osc_client osc_address w =
     (case get_model_dimensions_try ext model_path osc_client osc_address w of
        (Inr latent_dim, w') \<Rightarrow> (Inr (Some latent_dim), w')
      | (Inl e, w') \<Rightarrow>
          (let w1 = print (ErrorDimensions e) w';
               w2 = (if client_and_address osc_client osc_address
                     then send_message (the osc_address) (OscInt (- 1)) w1
                     else w1)
           in (Inr None, w2)))"

subsection \<open>The OSC handlers and their threads\<close>

text \<open>
  A handler runs in the listener; \<open>threading.Thread(target=process_thread).start()\<close>
  is recorded in \<open>threads\<close>, and the thread's body is a function of its own.
\<close>

definition handle_process_request :: "string \<Rightarrow> osc_arg list \<Rightarrow> world \<Rightarrow> error + world" where
  "handle_process_request address args w =
     (if length args < 2 then Inr (print (NotEnoughArgs address) w)
      else
        (case strip_volume (args ! 0) of
           Inl e \<Rightarrow> Inl e
         | Inr audio_dir \<Rightarrow>
        (case strip_volume (args ! 1) of
           Inl e \<Rightarrow> Inl e
         | Inr model_path \<Rightarrow>
        (let output_json = (if 2 < length args then Some (args ! 2) else None);
             method = (if 3 < length args then args ! 3 else OscStr ''pca'');
             skip_dim_reduction = (if 4 < length args then truthy (args ! 4) else False);
             w1 = print (ProcessingIn audio_dir model_path) w
         in Inr (w1\<lparr>threads := threads w1 @
               [ProcessThread \<lparr>job_model_path = model_path, job_audio_dir = audio_dir,
                  job_output_json = output_json, job_method = method,
                  job_skip_dim_reduction = skip_dim_reduction\<rparr>]\<rparr>)))))"

definition handle_model_info_request :: "string \<Rightarrow> osc_arg list \<Rightarrow> world \<Rightarrow> error + world" where
  "handle_model_info_request address args w =
     (if args = [] then Inr (print (NoModelPath address) w)
      else
        (let model_path = args ! 0;
             w1 = print (ReceivedInfoRequest model_path) w
         in Inr (w1\<lparr>threads := threads w1 @ [InfoThread model_path]\<rparr>)))"

text \<open>
  The thread bodies. \<open>osc_client\<close> is the global client \<open>main\<close> creates before the server
  starts; \<open>n_components\<close> and \<open>sr\<close> take their defaults.
\<close>

definition process_thread ::
    "'m ext \<Rightarrow> client \<Rightarrow> job \<Rightarrow> world \<Rightarrow> (error + string option) \<times> world" where
  "process_thread ext osc_client j w =
     process_audio_files ext (job_model_path j) (job_audio_dir j) (job_output_json j) 2 48000
       (job_method j) (job_skip_dim_reduction j) (Some osc_client)
       (Some ''/rave/processing/done'') w"

definition info_thread ::
    "'m ext \<Rightarrow> client \<Rightarrow> osc_arg \<Rightarrow> world \<Rightarrow> (error + nat option) \<times> world" where
  "info_thread ext osc_client model_path w =
     get_model_dimensions ext model_path (Some osc_client) (Some ''/rave/model/dimensions'') w"

subsection \<open>A small concrete installation\<close>

text \<open>
  Collaborators for running the model on concrete inputs: a directory \<open>/snd\<close> with two
  sound files and a text file, directories \<open>/short\<close> and \<open>/one\<close> with one sound file
  of a single sample each, a directory \<open>/empty\<close> without sound files, a model \<open>/m/rave.ts\<close> whose encoder answers every signal
  with a tensor of shape \<open>(1, 2, length of the signal)\<close>, a slice mean that rounds the
  exact mean once, and reducers that keep the first \<open>n\<close> columns of each row.
  \<open>mono_ext\<close> is the same installation with a model of latent width 1, whose encoder
  answers with a tensor of shape \<open>(1, 1, length of the signal)\<close>.
\<close>

definition demo_encode :: "nat \<Rightarrow> real list \<Rightarrow> error + ndarray" where
  "demo_encode rave x =
     Inr (NDArray [1, 2, length x] (map (\<lambda>v. Fin (v + 1)) x @ map (\<lambda>v. Fin (3 * v)) x))"

definition mono_encode :: "nat \<Rightarrow> real list \<Rightarrow> error + ndarray" where
  "mono_encode rave x = Inr (NDArray [1, 1, length x] (map Fin x))"

definition demo_mean :: "f32 list \<Rightarrow> f32" where
  "demo_mean xs =
     (if xs \<noteq> [] \<and> list_all is_Fin xs
      then round32 (sum_list (map val xs) / real (length xs)) else NaN)"

definition first_columns :: "nat \<Rightarrow> ndarray \<Rightarrow> error + ndarray" where
  "first_columns n m =
     (case shape m of
        [r, c] \<Rightarrow>
          if n \<le> c \<and> length (elems m) = r * c
          then Inr (NDArray [r, n]
                 (concat (map (\<lambda>i. take n (drop (i * c) (elems m))) [0..<r])))
          else Inl ValueError
      | _ \<Rightarrow> Inl ValueError)"

definition demo_samples :: "string \<Rightarrow> real list" where
  "demo_samples audio_file =
     (if audio_file = ''/snd/kick.wav'' then [1, 3]
      else if audio_file = ''/short/blip.wav'' then [7]
      else if audio_file = ''/one/tick.wav'' then [13]
      else [2, 4, 6])"

definition demo_ext :: "nat ext" where
  "demo_ext =
     \<lparr>jit_load = (\<lambda>p. if p = ''/m/rave.ts'' then Inr 0 else Inl (Failure ''no such file'')),
      listdir = (\<lambda>d. if d = ''/snd'' then Inr [''kick.wav'', ''notes.txt'', ''Snare.WAV'']
                      else if d = ''/short'' then Inr [''blip.wav'']
                      else if d = ''/one'' then Inr [''tick.wav'']
                      else if d = ''/empty'' then Inr [''notes.txt'']
                      else Inl (Failure ''no such directory'')),
      li_load = (\<lambda>f sr. Inr (demo_samples f)),
      rave_encode = demo_encode,
      np_mean1 = demo_mean,
      tsne_fit_transform = first_columns,
      umap_fit_transform = first_columns,
      pca_fit_transform = first_columns,
      abspath = (\<lambda>p. ''/cwd/'' @ p),
      open_w = (\<lambda>p. None),
      repr_float = (\<lambda>r. ''0.0''),
      repr_bytes = (\<lambda>b. b)\<rparr>"

definition mono_ext :: "nat ext" where
  "mono_ext = demo_ext\<lparr>rave_encode := mono_encode\<rparr>"

definition w0 :: world where
  "w0 = \<lparr>files = [], sent = [], console = [], threads = []\<rparr>"

definition demo_client :: client where
  "demo_client = (''127.0.0.1'', 9002)"

section \<open>Properties\<close>

subsection \<open>The handlers\<close>

text \<open>
  Claim C9. A process request with fewer than two arguments is logged and dropped: the
  handler returns normally, the console gains the line "Not enough arguments", no thread
  is started, nothing is written or sent, and every later request (process or model info)
  is treated exactly as it would have been without the dropped one.
\<close>

theorem malformed_request_dropped:
  assumes "length args < 2"
  shows "\<exists>w'. handle_process_request address args w = Inr w'
           \<and> console w' = console w @ [NotEnoughArgs address]
           \<and> threads w' = threads w \<and> files w' = files w \<and> sent w' = sent w
           \<and> (\<forall>address' args'.
                 map_sum id threads (handle_process_request address' args' w')
                   = map_sum id threads (handle_process_request address' args' w)
               \<and> map_sum id threads (handle_model_info_request address' args' w')
                   = map_sum id threads (handle_model_info_request address' args' w))"
  using assms
  by (auto simp: handle_process_request_def handle_model_info_request_def print_def Let_def
           split: sum.splits)

theorem malformed_request_dropped_witness:
  "\<exists>w'. handle_process_request ''/rave/process'' [OscStr ''/snd''] w0 = Inr w'
     \<and> console w' = [NotEnoughArgs ''/rave/process''] \<and> threads w' = []
     \<and> map_sum id threads
          (handle_process_request ''/rave/process'' [OscStr ''/snd'', OscStr ''/m/rave.ts''] w')
        = Inr [ProcessThread \<lparr>job_model_path = ''/m/rave.ts'', job_audio_dir = ''/snd'',
                 job_output_json = None, job_method = OscStr ''pca'',
                 job_skip_dim_reduction = False\<rparr>]"
proof -
  have short: "length [OscStr ''/snd''] < 2" by simp
  have next_one: "map_sum id threads
      (handle_process_request ''/rave/process'' [OscStr ''/snd'', OscStr ''/m/rave.ts''] w0)
        = Inr [ProcessThread \<lparr>job_model_path = ''/m/rave.ts'', job_audio_dir = ''/snd'',
                 job_output_json = None, job_method = OscStr ''pca'',
                 job_skip_dim_reduction = False\<rparr>]"
    by code_simp
  from malformed_request_dropped [OF short, of "''/rave/process''" w0]
  obtain w' where "handle_process_request ''/rave/process'' [OscStr ''/snd''] w0 = Inr w'"
    and "console w' = console w0 @ [NotEnoughArgs ''/rave/process'']"
    and "threads w' = threads w0"
    and "\<forall>address' args'.
                 map_sum id threads (handle_process_request address' args' w')
                   = map_sum id threads (handle_process_request address' args' w0)
               \<and> map_sum id threads (handle_model_info_request address' args' w')
                   = map_sum id threads (handle_model_info_request address' args' w0)"
    by blast
  then show ?thesis
    using next_one by (auto simp: w0_def)
qed



subsection \<open>The model probe\<close>

lemma try_frame:
  "get_model_dimensions_try ext model_path osc_client osc_address w = (r, w')
     \<Longrightarrow> files w' = files w \<and> threads w' = threads w"
  by (auto simp: get_model_dimensions_try_def print_def send_message_def Let_def
           split: sum.splits if_splits)

lemma try_sent:
  "get_model_dimensions_try ext model_path osc_client osc_address w = (r, w')
     \<Longrightarrow> client_and_address osc_client osc_address
     \<Longrightarrow> sent w' = sent w @ (case r of Inl e \<Rightarrow> [] | Inr d \<Rightarrow> [(the osc_address, OscInt (int d))])"
  by (auto simp: get_model_dimensions_try_def print_def send_message_def Let_def
           split: sum.splits if_splits)

lemma try_result:
  "fst (get_model_dimensions_try ext model_path osc_client osc_address w) = Inr d \<longleftrightarrow>
     (\<exists>p rave z. strip_volume model_path = Inr p \<and> jit_load ext p = Inr rave
        \<and> rave_encode ext rave (replicate 48000 0) = Inr z
        \<and> 1 < length (shape z) \<and> d = shape z ! 1)"
  by (auto simp: get_model_dimensions_try_def Let_def split: sum.splits if_splits)

text \<open>
  Claim C8. The thread of a model-info request always ends normally, whatever the
  collaborators do, and sends exactly one message on \<open>/rave/model/dimensions\<close>: the latent
  width \<open>z.shape[1]\<close> when the path is a string, the model loads and the probe encodes to a
  tensor with at least two axes, and -1 in every other case. It writes no file and starts
  no thread. (Sending a datagram is taken not to raise.)
\<close>

theorem introspection_always_answers:
  "\<exists>res w'. info_thread ext osc_client model_path w = (Inr res, w')
     \<and> files w' = files w \<and> threads w' = threads w
     \<and> sent w' = sent w @ [(''/rave/model/dimensions'',
                              OscInt (case res of Some d \<Rightarrow> int d | None \<Rightarrow> - 1))]
     \<and> (\<forall>d. res = Some d \<longleftrightarrow>
           (\<exists>p rave z. strip_volume model_path = Inr p \<and> jit_load ext p = Inr rave
              \<and> rave_encode ext rave (replicate 48000 0) = Inr z
              \<and> 1 < length (shape z) \<and> d = shape z ! 1))"
proof -
  let ?a = "Some ''/rave/model/dimensions''"
  let ?c = "Some osc_client"
  obtain r w1 where t: "get_model_dimensions_try ext model_path ?c ?a w = (r, w1)"
    by (cases "get_model_dimensions_try ext model_path ?c ?a w")
  have ca: "client_and_address ?c ?a" by (simp add: client_and_address_def)
  note fr = try_frame [OF t] and se = try_sent [OF t ca]
  have res: "\<And>d. r = Inr d \<longleftrightarrow>
           (\<exists>p rave z. strip_volume model_path = Inr p \<and> jit_load ext p = Inr rave
              \<and> rave_encode ext rave (replicate 48000 0) = Inr z
              \<and> 1 < length (shape z) \<and> d = shape z ! 1)"
    using try_result [of ext model_path ?c ?a w] t by simp
  show ?thesis
  proof (cases r)
    case (Inl e)
    have run: "info_thread ext osc_client model_path w
        = (Inr None, send_message ''/rave/model/dimensions'' (OscInt (- 1))
                       (print (ErrorDimensions e) w1))"
      using t Inl ca by (simp add: info_thread_def get_model_dimensions_def)
    have none: "\<And>d. r \<noteq> Inr d" using Inl by simp
    show ?thesis
      using run fr se Inl none res
      by (auto simp: print_def send_message_def)
  next
    case (Inr d)
    have run: "info_thread ext osc_client model_path w = (Inr (Some d), w1)"
      using t Inr by (simp add: info_thread_def get_model_dimensions_def)
    have "\<And>d'. (Some d = Some d') \<longleftrightarrow> r = Inr d'" using Inr by auto
    then show ?thesis
      using run fr se Inr res by auto
  qed
qed

theorem introspection_always_answers_witness:
  "(\<exists>w'. info_thread demo_ext demo_client (OscStr ''/m/none.ts'') w0 = (Inr None, w')
      \<and> sent w' = [(''/rave/model/dimensions'', OscInt (- 1))])
   \<and> (\<exists>w'. info_thread demo_ext demo_client (OscStr ''Macintosh HD:/m/rave.ts'') w0
              = (Inr (Some 2), w')
      \<and> sent w' = [(''/rave/model/dimensions'', OscInt 2)])"
proof -
  have enc: "rave_encode demo_ext rave x
      = Inr (NDArray [1, 2, length x] (map (\<lambda>v. Fin (v + 1)) x @ map (\<lambda>v. Fin (3 * v)) x))"
    for rave x
    by (simp add: demo_ext_def demo_encode_def)
  have load: "jit_load demo_ext p = (if p = ''/m/rave.ts'' then Inr 0 else Inl (Failure ''no such file''))" for p
    by (simp add: demo_ext_def)
  have sv1: "strip_volume (OscStr ''/m/none.ts'') = Inr ''/m/none.ts''"
    by (simp add: strip_volume_def startswith_def)
  have sv2: "strip_volume (OscStr ''Macintosh HD:/m/rave.ts'') = Inr ''/m/rave.ts''"
    by (simp add: strip_volume_def startswith_def)
  have bad: "\<not> (\<exists>p rave z. strip_volume (OscStr ''/m/none.ts'') = Inr p
        \<and> jit_load demo_ext p = Inr rave
        \<and> rave_encode demo_ext rave (replicate 48000 0) = Inr z
        \<and> 1 < length (shape z) \<and> d = shape z ! 1)" for d
    unfolding sv1 load by simp
  have good: "\<exists>p rave z. strip_volume (OscStr ''Macintosh HD:/m/rave.ts'') = Inr p
        \<and> jit_load demo_ext p = Inr rave
        \<and> rave_encode demo_ext rave (replicate 48000 0) = Inr z
        \<and> 1 < length (shape z) \<and> 2 = shape z ! 1"
    unfolding sv2 load enc by simp
  from introspection_always_answers [of demo_ext demo_client "OscStr ''/m/none.ts''" w0]
  obtain res w' where r1: "info_thread demo_ext demo_client (OscStr ''/m/none.ts'') w0 = (Inr res, w')"
    and s1: "sent w' = sent w0 @ [(''/rave/model/dimensions'',
                              OscInt (case res of Some d \<Rightarrow> int d | None \<Rightarrow> - 1))]"
    and i1: "\<forall>d. res = Some d \<longleftrightarrow>
           (\<exists>p rave z. strip_volume (OscStr ''/m/none.ts'') = Inr p \<and> jit_load demo_ext p = Inr rave
              \<and> rave_encode demo_ext rave (replicate 48000 0) = Inr z
              \<and> 1 < length (shape z) \<and> d = shape z ! 1)"
    by blast
  have "res = None" using i1 bad by (cases res) blast+
  then have first: "\<exists>w'. info_thread demo_ext demo_client (OscStr ''/m/none.ts'') w0 = (Inr None, w')
      \<and> sent w' = [(''/rave/model/dimensions'', OscInt (- 1))]"
    using r1 s1 by (simp add: w0_def)
  from introspection_always_answers
         [of demo_ext demo_client "OscStr ''Macintosh HD:/m/rave.ts''" w0]
  obtain res2 w2 where r2: "info_thread demo_ext demo_client (OscStr ''Macintosh HD:/m/rave.ts'') w0 = (Inr res2, w2)"
    and s2: "sent w2 = sent w0 @ [(''/rave/model/dimensions'',
                              OscInt (case res2 of Some d \<Rightarrow> int d | None \<Rightarrow> - 1))]"
    and i2: "\<forall>d. res2 = Some d \<longleftrightarrow>
           (\<exists>p rave z. strip_volume (OscStr ''Macintosh HD:/m/rave.ts'') = Inr p \<and> jit_load demo_ext p = Inr rave
              \<and> rave_encode demo_ext rave (replicate 48000 0) = Inr z
              \<and> 1 < length (shape z) \<and> d = shape z ! 1)"
    by blast
  have "res2 = Some 2" using i2 good by blast
  then have second: "\<exists>w'. info_thread demo_ext demo_client (OscStr ''Macintosh HD:/m/rave.ts'') w0
              = (Inr (Some 2), w')
      \<and> sent w' = [(''/rave/model/dimensions'', OscInt 2)]"
    using r2 s2 by (simp add: w0_def)
  from first second show ?thesis by blast
qed

subsection \<open>The pipeline: structure of a completed job\<close>

lemma fill_reduced_keys:
  "fill_reduced lr i ks rd = Inr rd' \<Longrightarrow> fst ` set rd' = set ks \<union> fst ` set rd"
proof (induction ks arbitrary: i rd)
  case Nil
  then show ?case by simp
next
  case (Cons k ks)
  then obtain row where row: "np_row lr i = Inr row"
    and rest: "fill_reduced lr (Suc i) ks (AList.update k row rd) = Inr rd'"
    by (auto split: sum.splits)
  from Cons.IH [OF rest] show ?case
    by (auto simp: dom_update)
qed

lemma fill_reduced_rows:
  "fill_reduced lr i ks rd = Inr rd' \<Longrightarrow> (k, v) \<in> set rd'
     \<Longrightarrow> (k, v) \<in> set rd \<or> (\<exists>j. np_row lr j = Inr v)"
proof (induction ks arbitrary: i rd)
  case Nil
  then show ?case by simp
next
  case (Cons k' ks)
  then obtain row where row: "np_row lr i = Inr row"
    and rest: "fill_reduced lr (Suc i) ks (AList.update k' row rd) = Inr rd'"
    by (auto split: sum.splits)
  from Cons.IH [OF rest Cons.prems(2)]
  show ?case
  proof
    assume "(k, v) \<in> set (AList.update k' row rd)"
    then have "(k, v) \<in> set rd \<or> v = row"
      by (induction rd) (auto split: if_splits)
    then show ?thesis using row by blast
  next
    assume "\<exists>j. np_row lr j = Inr v"
    then show ?thesis by blast
  qed
qed

lemma reduction_frame:
  "reduction ext method ld lv w = (r, w') \<Longrightarrow>
     files w' = files w \<and> sent w' = sent w \<and> threads w' = threads w"
  by (auto simp: reduction_def print_def Let_def split: sum.splits if_splits)

lemma reduction_keys:
  assumes "reduction ext method ld lv w = (Inr rd, w')"
  shows "fst ` set rd = fst ` set ld"
proof -
  from assms obtain lr where "fill_reduced lr 0 (map fst ld) [] = Inr rd"
    by (auto simp: reduction_def Let_def split: sum.splits if_splits)
  from fill_reduced_keys [OF this] show ?thesis by simp
qed

lemma save_output_files:
  assumes "save_output ext output_json model_path method skip osc_client osc_address art w3
             = (Inr (Some p), w')"
  shows "files w' = files w3 @ [(p, art)]"
proof (cases "resolve_output_json ext output_json model_path method skip")
  case (Inl e)
  then show ?thesis using assms by (simp add: save_output_def)
next
  case (Inr path)
  show ?thesis
  proof (cases "open_w ext path")
    case None
    then show ?thesis
      using assms Inr
      by (auto simp: save_output_def Let_def print_def json_dump_def send_message_def)
  next
    case (Some e)
    then show ?thesis using assms Inr by (simp add: save_output_def)
  qed
qed

lemma process_unfold:
  assumes "jit_load ext model_path = Inr rave"
      and "listdir ext audio_dir = Inr entries"
      and "filter (\<lambda>f. endswith (lower f) ''.wav'') entries \<noteq> []"
      and "encode_all ext rave sr
             (map (os_path_join audio_dir) (filter (\<lambda>f. endswith (lower f) ''.wav'') entries))
             ([], [], None) = Inr (ld, lv, nd)"
  shows "process_audio_files ext model_path audio_dir output_json n_components sr method
           skip_dim_reduction osc_client osc_address w =
         (let w2 = print EncodingFiles (print (LoadingModel model_path) w) in
          if \<not> skip_dim_reduction then
            (case reduction ext method ld lv w2 of
               (Inl e, w3) \<Rightarrow> (Inl e, w3)
             | (Inr rd, w3) \<Rightarrow>
                 save_output ext output_json model_path method skip_dim_reduction osc_client
                   osc_address
                   (\<lparr>cols = nd, data = ld, reduced_data = None\<rparr>\<lparr>reduced_data := Some rd\<rparr>) w3)
          else
            save_output ext output_json model_path method skip_dim_reduction osc_client
              osc_address \<lparr>cols = nd, data = ld, reduced_data = None\<rparr> w2)"
  using assms by (simp add: process_audio_files_def Let_def)

lemma process_early:
  "jit_load ext model_path = Inl e \<Longrightarrow>
     fst (process_audio_files ext model_path audio_dir output_json n_components sr method
            skip_dim_reduction osc_client osc_address w) = Inl e"
  "jit_load ext model_path = Inr rave \<Longrightarrow> listdir ext audio_dir = Inl e \<Longrightarrow>
     fst (process_audio_files ext model_path audio_dir output_json n_components sr method
            skip_dim_reduction osc_client osc_address w) = Inl e"
  "jit_load ext model_path = Inr rave \<Longrightarrow> listdir ext audio_dir = Inr entries \<Longrightarrow>
     filter (\<lambda>f. endswith (lower f) ''.wav'') entries = [] \<Longrightarrow>
     fst (process_audio_files ext model_path audio_dir output_json n_components sr method
            skip_dim_reduction osc_client osc_address w) = Inr None"
  "jit_load ext model_path = Inr rave \<Longrightarrow> listdir ext audio_dir = Inr entries \<Longrightarrow>
     filter (\<lambda>f. endswith (lower f) ''.wav'') entries \<noteq> [] \<Longrightarrow>
     encode_all ext rave sr
       (map (os_path_join audio_dir) (filter (\<lambda>f. endswith (lower f) ''.wav'') entries))
       ([], [], None) = Inl e \<Longrightarrow>
     fst (process_audio_files ext model_path audio_dir output_json n_components sr method
            skip_dim_reduction osc_client osc_address w) = Inl e"
  by (simp_all add: process_audio_files_def Let_def)

lemma process_completed:
  assumes "process_audio_files ext model_path audio_dir output_json n_components sr method
             skip_dim_reduction osc_client osc_address w = (Inr (Some path), w')"
  obtains rave entries ld lv nd red w2 where
      "jit_load ext model_path = Inr rave" and "listdir ext audio_dir = Inr entries"
    and "filter (\<lambda>f. endswith (lower f) ''.wav'') entries \<noteq> []"
    and "encode_all ext rave sr
           (map (os_path_join audio_dir) (filter (\<lambda>f. endswith (lower f) ''.wav'') entries))
           ([], [], None) = Inr (ld, lv, nd)"
    and "skip_dim_reduction \<Longrightarrow> red = None"
    and "\<not> skip_dim_reduction \<Longrightarrow> \<exists>rd w3. reduction ext method ld lv w2 = (Inr rd, w3) \<and> red = Some rd"
    and "files w' = files w @ [(path, \<lparr>cols = nd, data = ld, reduced_data = red\<rparr>)]"
proof -
  have res: "fst (process_audio_files ext model_path audio_dir output_json n_components sr
                method skip_dim_reduction osc_client osc_address w) = Inr (Some path)"
    using assms by simp
  obtain rave where l: "jit_load ext model_path = Inr rave"
    using res process_early(1) [of ext model_path]
    by (cases "jit_load ext model_path") auto
  obtain entries where e: "listdir ext audio_dir = Inr entries"
    using res process_early(2) [OF l, of audio_dir]
    by (cases "listdir ext audio_dir") auto
  let ?fs = "filter (\<lambda>f. endswith (lower f) ''.wav'') entries"
  let ?afs = "map (os_path_join audio_dir) ?fs"
  have ne: "?fs \<noteq> []"
    using res process_early(3) [OF l e] by auto
  let ?w2 = "print EncodingFiles (print (LoadingModel model_path) w)"
  obtain st where "encode_all ext rave sr ?afs ([], [], None) = Inr st"
    using res process_early(4) [OF l e ne]
    by (cases "encode_all ext rave sr ?afs ([], [], None)") auto
  then obtain ld lv nd where enc: "encode_all ext rave sr ?afs ([], [], None) = Inr (ld, lv, nd)"
    by (cases st) auto
  note u = process_unfold [OF l e ne enc, of output_json n_components "method"
      skip_dim_reduction osc_client osc_address w]
  have w2f: "files ?w2 = files w" by (simp add: print_def)
  show ?thesis
  proof (cases skip_dim_reduction)
    case True
    have "process_audio_files ext model_path audio_dir output_json n_components sr method
             skip_dim_reduction osc_client osc_address w
          = save_output ext output_json model_path method skip_dim_reduction osc_client
            osc_address \<lparr>cols = nd, data = ld, reduced_data = None\<rparr> ?w2"
      unfolding u using True by (simp add: Let_def)
    with assms have "save_output ext output_json model_path method skip_dim_reduction
        osc_client osc_address \<lparr>cols = nd, data = ld, reduced_data = None\<rparr> ?w2
          = (Inr (Some path), w')"
      by simp
    from save_output_files [OF this]
    have fl: "files w' = files w @ [(path, \<lparr>cols = nd, data = ld, reduced_data = None\<rparr>)]"
      using w2f by simp
    show ?thesis
      by (rule that [of rave entries ld lv nd None ?w2, OF l e ne enc _ _ fl])
         (use True in simp_all)
  next
    case False
    obtain r w3 where red: "reduction ext method ld lv ?w2 = (r, w3)"
      by (cases "reduction ext method ld lv ?w2")
    have eq: "process_audio_files ext model_path audio_dir output_json n_components sr method
             skip_dim_reduction osc_client osc_address w
          = (case r of Inl e \<Rightarrow> (Inl e, w3)
             | Inr rd \<Rightarrow> save_output ext output_json model_path method skip_dim_reduction
                 osc_client osc_address \<lparr>cols = nd, data = ld, reduced_data = Some rd\<rparr> w3)"
      unfolding u using False red by (cases r) (simp_all add: Let_def)
    obtain rd where r: "r = Inr rd"
      using assms eq by (cases r) simp_all
    have w3f: "files w3 = files w"
      using reduction_frame [OF red] w2f by simp
    have "save_output ext output_json model_path method skip_dim_reduction osc_client
            osc_address \<lparr>cols = nd, data = ld, reduced_data = Some rd\<rparr> w3 = (Inr (Some path), w')"
      using assms eq r by simp
    from save_output_files [OF this]
    have fl: "files w' = files w @ [(path, \<lparr>cols = nd, data = ld, reduced_data = Some rd\<rparr>)]"
      using w3f by simp
    have ex: "\<exists>rd' w3'. reduction ext method ld lv ?w2 = (Inr rd', w3') \<and> Some rd = Some rd'"
      using red r by simp
    show ?thesis
      by (rule that [of rave entries ld lv nd "Some rd" ?w2, OF l e ne enc _ _ fl])
         (use False ex in simp_all)
  qed
qed

lemma encode_file_keys:
  assumes "encode_file ext rave sr f (ld, lv, nd) = Inr (ld', lv', nd')"
  shows "fst ` set ld' = insert (file_key_of f) (fst ` set ld)"
proof -
  from assms obtain v where "ld' = AList.update (file_key_of f) v ld"
    by (auto simp: encode_file_def Let_def split: sum.splits if_splits)
  then show ?thesis by (simp add: dom_update)
qed

lemma encode_all_keys:
  "encode_all ext rave sr fs st = Inr st'
     \<Longrightarrow> fst ` set (fst st') = file_key_of ` set fs \<union> fst ` set (fst st)"
proof (induction fs arbitrary: st)
  case Nil
  then show ?case by simp
next
  case (Cons f fs)
  then obtain st1 where one: "encode_file ext rave sr f st = Inr st1"
    and rest: "encode_all ext rave sr fs st1 = Inr st'"
    by (auto split: sum.splits)
  obtain ld lv nd where st: "st = (ld, lv, nd)" by (cases st)
  obtain ld1 lv1 nd1 where st1: "st1 = (ld1, lv1, nd1)" by (cases st1)
  from encode_file_keys [OF one [unfolded st st1]]
  have "fst ` set (fst st1) = insert (file_key_of f) (fst ` set (fst st))"
    by (simp add: st st1)
  with Cons.IH [OF rest] show ?case by auto
qed

text \<open>
  The part of claim C2 that holds: after a completed job the keys of \<open>data\<close> are exactly
  the file identifiers of the eligible files.
\<close>

lemma data_keys_are_file_identifiers:
  assumes "process_audio_files ext model_path audio_dir output_json n_components sr method
             skip_dim_reduction osc_client osc_address w = (Inr (Some path), w')"
  shows "\<exists>entries art. listdir ext audio_dir = Inr entries
           \<and> files w' = files w @ [(path, art)]
           \<and> fst ` set (data art)
               = (\<lambda>f. file_key_of (os_path_join audio_dir f))
                   ` {f \<in> set entries. endswith (lower f) ''.wav''}"
proof (rule process_completed [OF assms])
  fix rave :: 'a and entries ld lv nd red w2
  assume e: "listdir ext audio_dir = Inr entries"
    and enc: "encode_all ext rave sr
           (map (os_path_join audio_dir) (filter (\<lambda>f. endswith (lower f) ''.wav'') entries))
           ([], [], None) = Inr (ld, lv, nd)"
    and f: "files w' = files w @ [(path, \<lparr>cols = nd, data = ld, reduced_data = red\<rparr>)]"
  let ?art = "\<lparr>cols = nd, data = ld, reduced_data = red\<rparr>"
  from encode_all_keys [OF enc]
  have k: "fst ` set (data ?art)
      = (\<lambda>f. file_key_of (os_path_join audio_dir f))
          ` {f \<in> set entries. endswith (lower f) ''.wav''}"
    by (simp add: image_image)
  show ?thesis
    by (rule exI [of _ entries], rule exI [of _ ?art]) (intro conjI e f k)
qed

subsection \<open>Rounding to float32\<close>

lemma rne_err: "\<bar>of_int (rne t) - t\<bar> \<le> 1 / 2"
  unfolding rne_def Let_def by (simp; linarith)

lemma binade_pow: "2 powi (binade k a) \<le> max a (2 powi (- 126))"
  by (induction k) auto

lemma binade_eq:
  "- 126 \<le> e \<Longrightarrow> e \<le> int k - 126 \<Longrightarrow> 2 powi e \<le> a \<Longrightarrow> a < 2 powi (e + 1) \<Longrightarrow> binade k a = e"
proof (induction k)
  case 0
  then show ?case by simp
next
  case (Suc k)
  show ?case
  proof (cases "e = int (Suc k) - 126")
    case True
    with Suc.prems show ?thesis by simp
  next
    case False
    with Suc.prems have le: "e + 1 \<le> int (Suc k) - 126" by simp
    have "(2::real) powi (e + 1) \<le> 2 powi (int (Suc k) - 126)"
      by (rule power_int_increasing [OF le]) simp
    with Suc.prems have "\<not> 2 powi (int (Suc k) - 126) \<le> a" by linarith
    moreover have "binade k a = e" using Suc.IH Suc.prems le by simp
    ultimately show ?thesis by simp
  qed
qed

lemma quantum_split: "(2::real) powi (e - 23) = 2 powi e / 2 ^ 23"
  by (simp add: power_int_diff)

lemma rne_scaled:
  assumes q: "0 < q"
  shows "\<bar>of_int (rne (x / q)) * q - x\<bar> \<le> q / 2"
proof -
  have "of_int (rne (x / q)) * q - x = (of_int (rne (x / q)) - x / q) * q"
    using q by (simp add: field_simps)
  then have "\<bar>of_int (rne (x / q)) * q - x\<bar> = \<bar>of_int (rne (x / q)) - x / q\<bar> * q"
    using q by (simp add: abs_mult)
  also have "\<dots> \<le> (1 / 2) * q"
    by (rule mult_right_mono [OF rne_err]) (use q in simp)
  finally show ?thesis by simp
qed

lemma round32_err:
  assumes "\<bar>x\<bar> \<le> 2 ^ 127"
  shows "\<exists>y. round32 x = Fin y \<and> \<bar>y - x\<bar> \<le> max \<bar>x\<bar> (2 powi (- 126)) / 2 ^ 24"
proof -
  define e where "e = binade 254 \<bar>x\<bar>"
  define q :: real where "q = 2 powi (e - 23)"
  define y where "y = of_int (rne (x / q)) * q"
  have q0: "0 < q" by (simp add: q_def)
  have qe: "q = 2 powi e / 2 ^ 23" unfolding q_def by (rule quantum_split)
  have pe: "2 powi e \<le> max \<bar>x\<bar> (2 powi (- 126))" unfolding e_def by (rule binade_pow)
  have err: "\<bar>y - x\<bar> \<le> q / 2" unfolding y_def by (rule rne_scaled [OF q0])
  have q2: "q / 2 = 2 powi e / 2 ^ 24" by (simp add: qe)
  have b: "\<bar>y - x\<bar> \<le> max \<bar>x\<bar> (2 powi (- 126)) / 2 ^ 24"
    using err pe unfolding q2 by (simp add: divide_simps)
  have m: "max \<bar>x\<bar> (2 powi (- 126)) \<le> (2::real) ^ 127" using assms by simp
  have "\<bar>y\<bar> \<le> \<bar>x\<bar> + \<bar>y - x\<bar>" by linarith
  also have "\<dots> \<le> 2 ^ 127 + 2 ^ 127 / 2 ^ 24"
  proof -
    have "max \<bar>x\<bar> (2 powi (- 126)) / 2 ^ 24 \<le> (2::real) ^ 127 / 2 ^ 24"
      by (rule divide_right_mono [OF m]) simp
    with b assms show ?thesis by linarith
  qed
  also have "\<dots> < (2::real) ^ 128" by simp
  finally have "\<not> 2 ^ 128 \<le> \<bar>y\<bar>" by simp
  then have "round32 x = Fin y"
    unfolding round32_def Let_def y_def q_def e_def by simp
  with b show ?thesis by blast
qed

lemma round32_at:
  assumes "2 powi e \<le> \<bar>x\<bar>" "\<bar>x\<bar> < 2 powi (e + 1)" "- 126 \<le> e" "e \<le> 126"
  shows "round32 x = Fin (of_int (rne (x / 2 powi (e - 23))) * 2 powi (e - 23))"
proof -
  have be: "binade 254 \<bar>x\<bar> = e"
    by (rule binade_eq) (use assms in simp_all)
  define q :: real where "q = 2 powi (e - 23)"
  define y where "y = of_int (rne (x / q)) * q"
  have q0: "0 < q" by (simp add: q_def)
  have err: "\<bar>y - x\<bar> \<le> q / 2" unfolding y_def by (rule rne_scaled [OF q0])
  have qle: "q \<le> 2 powi e" unfolding q_def by (rule power_int_increasing) simp_all
  have "(2::real) powi (e + 1) \<le> 2 powi 127" by (rule power_int_increasing) (use assms in simp_all)
  then have x127: "\<bar>x\<bar> < 2 ^ 127" using assms by simp
  have "(2::real) powi e \<le> 2 powi 126" by (rule power_int_increasing) (use assms in simp_all)
  then have q126: "q \<le> 2 ^ 126" using qle by simp
  have "\<bar>y\<bar> \<le> \<bar>x\<bar> + \<bar>y - x\<bar>" by linarith
  also have "\<dots> < 2 ^ 127 + 2 ^ 126" using x127 err q126 q0 by linarith
  also have "\<dots> \<le> (2::real) ^ 128" by simp
  finally have "\<not> 2 ^ 128 \<le> \<bar>y\<bar>" by simp
  then show ?thesis
    unfolding round32_def Let_def be y_def q_def by simp
qed

lemma f32_max_fin:
  assumes "f32_max a (f32_abs x) = Fin m" and "a \<noteq> NInf"
  shows "\<exists>b y. a = Fin b \<and> x = Fin y \<and> m = max b \<bar>y\<bar>"
  using assms by (cases a; cases x) simp_all

lemma f32_max_not_ninf: "a \<noteq> NInf \<Longrightarrow> f32_max a (f32_abs x) \<noteq> NInf"
  by (cases a; cases x) simp_all

lemma Max_insert_max:
  fixes b :: real
  assumes "finite S"
  shows "Max (insert (max b y) S) = Max (insert b (insert y S))"
  using assms by (cases "S = {}") (simp_all add: max.assoc)

lemma abs_max_fin_only:
  assumes "foldl f32_max a (map f32_abs xs) = Fin m" and "a \<noteq> NInf"
  shows "\<exists>b ys. a = Fin b \<and> xs = map Fin ys \<and> m = Max (insert b (abs ` set ys))"
  using assms
proof (induction xs arbitrary: a)
  case Nil
  then show ?case by simp
next
  case (Cons x xs)
  from Cons.prems have "foldl f32_max (f32_max a (f32_abs x)) (map f32_abs xs) = Fin m" by simp
  from Cons.IH [OF this f32_max_not_ninf [OF Cons.prems(2)]] obtain b' ys
    where s: "f32_max a (f32_abs x) = Fin b'" and xs: "xs = map Fin ys"
      and m: "m = Max (insert b' (abs ` set ys))" by blast
  from f32_max_fin [OF s Cons.prems(2)] obtain b y where a: "a = Fin b" and x: "x = Fin y"
    and b': "b' = max b \<bar>y\<bar>" by blast
  have l: "x # xs = map Fin (y # ys)" using x xs by simp
  have "m = Max (insert b (abs ` set (y # ys)))"
    using m b' Max_insert_max [of "abs ` set ys" b "\<bar>y\<bar>"] by simp
  with a l show ?case by (intro exI [of _ b] exI [of _ "y # ys"]) simp
qed

lemma abs_max_of_fin:
  "foldl f32_max (Fin b) (map f32_abs (map Fin ys)) = Fin (Max (insert b (abs ` set ys)))"
proof (induction ys arbitrary: b)
  case Nil
  show ?case by simp
next
  case (Cons y ys)
  show ?case
    using Cons.IH [of "max b \<bar>y\<bar>"] Max_insert_max [of "abs ` set ys" b "\<bar>y\<bar>"] by simp
qed

lemma round32_rel:
  assumes "2 powi (- 126) \<le> \<bar>x\<bar>" and "\<bar>x\<bar> \<le> 2 ^ 127"
  shows "\<exists>y. round32 x = Fin y \<and> \<bar>y - x\<bar> \<le> \<bar>x\<bar> / 2 ^ 24"
proof -
  from round32_err [OF assms(2)] obtain y
    where "round32 x = Fin y" and "\<bar>y - x\<bar> \<le> max \<bar>x\<bar> (2 powi (- 126)) / 2 ^ 24" by blast
  moreover have "max \<bar>x\<bar> (2 powi (- 126)) = \<bar>x\<bar>" using assms(1) by (simp add: max_def)
  ultimately show ?thesis by simp
qed

lemma factor_near:
  assumes lo: "2 powi (- 100) \<le> m" and hi: "m \<le> 2 ^ 100"
  shows "\<exists>c. f32_div (Fin 5) (Fin m) = Fin c
           \<and> 5 * (1 - 1 / 2 ^ 24) \<le> m * c \<and> m * c \<le> 5 * (1 + 1 / 2 ^ 24)"
proof -
  have m0: "0 < m" using lo by (rule less_le_trans [rotated]) simp
  have a: "2 powi (- 126) \<le> \<bar>5 / m\<bar>"
  proof -
    have "2 powi (- 126) * m \<le> 2 powi (- 126) * (2::real) ^ 100"
      by (rule mult_left_mono [OF hi]) simp
    also have "\<dots> \<le> 5" by simp
    finally show ?thesis using m0 by (simp add: field_simps)
  qed
  have b: "\<bar>5 / m\<bar> \<le> 2 ^ 127"
  proof -
    have "5 \<le> 2 ^ 127 * (2::real) powi (- 100)" by simp
    also have "\<dots> \<le> 2 ^ 127 * m" by (rule mult_left_mono [OF lo]) simp
    finally show ?thesis using m0 by (simp add: field_simps)
  qed
  from round32_rel [OF a b] obtain c
    where c: "round32 (5 / m) = Fin c" and e: "\<bar>c - 5 / m\<bar> \<le> \<bar>5 / m\<bar> / 2 ^ 24" by blast
  have le: "m * \<bar>c - 5 / m\<bar> \<le> m * (\<bar>5 / m\<bar> / 2 ^ 24)"
    by (rule mult_left_mono [OF e]) (use m0 in simp)
  have l: "m * \<bar>c - 5 / m\<bar> = \<bar>m * c - 5\<bar>"
  proof -
    have "m * \<bar>c - 5 / m\<bar> = \<bar>m * (c - 5 / m)\<bar>" using m0 by (simp add: abs_mult)
    also have "m * (c - 5 / m) = m * c - 5" using m0 by (simp add: right_diff_distrib)
    finally show ?thesis .
  qed
  have r: "m * (\<bar>5 / m\<bar> / 2 ^ 24) = 5 / 2 ^ 24" using m0 by simp
  from le have "\<bar>m * c - 5\<bar> \<le> 5 / 2 ^ 24" unfolding l r .
  then have "5 * (1 - 1 / 2 ^ 24) \<le> m * c \<and> m * c \<le> 5 * (1 + 1 / 2 ^ 24)"
    unfolding abs_le_iff by (simp add: field_simps)
  with c m0 show ?thesis by simp
qed

lemma product_near:
  assumes lo: "5 * (1 - 1 / 2 ^ 24) \<le> m * c" and hi: "m * c \<le> 5 * (1 + 1 / 2 ^ 24)"
      and m0: "0 < m" and ym: "\<bar>y\<bar> \<le> m"
  shows "\<exists>z. f32_mul (Fin y) (Fin c) = Fin z
           \<and> \<bar>z\<bar> \<le> 5 + 1 / 2 ^ 20
           \<and> (\<bar>y\<bar> = m \<longrightarrow> 5 - 1 / 2 ^ 20 \<le> \<bar>z\<bar>)"
proof -
  define p where "p = y * c"
  have c0: "0 \<le> c"
  proof (rule ccontr)
    assume "\<not> 0 \<le> c"
    then have "m * c < 0" using m0 by (simp add: mult_pos_neg)
    with lo show False by simp
  qed
  have pabs: "\<bar>p\<bar> = \<bar>y\<bar> * c" using c0 by (simp add: p_def abs_mult)
  have "\<bar>y\<bar> * c \<le> m * c" by (rule mult_right_mono [OF ym c0])
  with hi pabs have pu: "\<bar>p\<bar> \<le> 5 * (1 + 1 / 2 ^ 24)" by simp
  then have p127: "\<bar>p\<bar> \<le> 2 ^ 127" by simp
  from round32_err [OF p127] obtain z
    where z: "round32 p = Fin z" and e: "\<bar>z - p\<bar> \<le> max \<bar>p\<bar> (2 powi (- 126)) / 2 ^ 24"
    by blast
  have "max \<bar>p\<bar> (2 powi (- 126)) \<le> 5 * (1 + 1 / 2 ^ 24)" using pu by simp
  then have "max \<bar>p\<bar> (2 powi (- 126)) / 2 ^ 24 \<le> 5 * (1 + 1 / 2 ^ 24) / 2 ^ 24"
    by (rule divide_right_mono) simp
  with e have e': "\<bar>z - p\<bar> \<le> 5 * (1 + 1 / 2 ^ 24) / 2 ^ 24" by linarith
  have "\<bar>z\<bar> \<le> \<bar>p\<bar> + \<bar>z - p\<bar>" by linarith
  with pu e' have "\<bar>z\<bar> \<le> 5 * (1 + 1 / 2 ^ 24) + 5 * (1 + 1 / 2 ^ 24) / 2 ^ 24" by linarith
  also have "\<dots> \<le> 5 + 1 / 2 ^ 20" by simp
  finally have up: "\<bar>z\<bar> \<le> 5 + 1 / 2 ^ 20" .
  have low: "5 - 1 / 2 ^ 20 \<le> \<bar>z\<bar>" if "\<bar>y\<bar> = m"
  proof -
    from that pabs lo have pl: "5 * (1 - 1 / 2 ^ 24) \<le> \<bar>p\<bar>" by simp
    have "\<bar>p\<bar> - \<bar>z - p\<bar> \<le> \<bar>z\<bar>" by linarith
    with pl e' have "5 * (1 - 1 / 2 ^ 24) - 5 * (1 + 1 / 2 ^ 24) / 2 ^ 24 \<le> \<bar>z\<bar>" by linarith
    moreover have "(5::real) - 1 / 2 ^ 20 \<le> 5 * (1 - 1 / 2 ^ 24) - 5 * (1 + 1 / 2 ^ 24) / 2 ^ 24"
      by simp
    ultimately show ?thesis by linarith
  qed
  from z up low show ?thesis by (simp add: p_def)
qed

lemma scaled_list_near_five:
  assumes ne: "ys \<noteq> []" and m: "m = Max (abs ` set ys)"
      and lo: "2 powi (- 100) \<le> m" and hi: "m \<le> 2 ^ 100"
  shows "\<exists>zs. map (\<lambda>x. f32_mul x (f32_div (Fin 5) (Fin m))) (map Fin ys) = map Fin zs
           \<and> zs \<noteq> [] \<and> \<bar>Max (abs ` set zs) - 5\<bar> \<le> 1 / 2 ^ 20"
proof -
  from factor_near [OF lo hi] obtain c where c: "f32_div (Fin 5) (Fin m) = Fin c"
    and cl: "5 * (1 - 1 / 2 ^ 24) \<le> m * c" and ch: "m * c \<le> 5 * (1 + 1 / 2 ^ 24)" by blast
  have m0: "0 < m" using lo by (rule less_le_trans [rotated]) simp
  define g where "g y = val (f32_mul (Fin y) (Fin c))" for y
  have fin: "finite (abs ` set ys)" and nonempty: "abs ` set ys \<noteq> {}" using ne by simp_all
  have each: "f32_mul (Fin y) (Fin c) = Fin (g y) \<and> \<bar>g y\<bar> \<le> 5 + 1 / 2 ^ 20
                \<and> (\<bar>y\<bar> = m \<longrightarrow> 5 - 1 / 2 ^ 20 \<le> \<bar>g y\<bar>)" if "y \<in> set ys" for y
  proof -
    from that have "\<bar>y\<bar> \<le> m" unfolding m using fin by (simp add: Max_ge)
    from product_near [OF cl ch m0 this] show ?thesis unfolding g_def by auto
  qed
  let ?zs = "map g ys"
  have maps: "map (\<lambda>x. f32_mul x (f32_div (Fin 5) (Fin m))) (map Fin ys) = map Fin ?zs"
    unfolding c using each by simp
  have zne: "?zs \<noteq> []" using ne by simp
  have zfin: "finite (abs ` set ?zs)" and znonempty: "abs ` set ?zs \<noteq> {}" using ne by simp_all
  have up: "Max (abs ` set ?zs) \<le> 5 + 1 / 2 ^ 20"
    unfolding Max_le_iff [OF zfin znonempty] using each by auto
  from Max_in [OF fin nonempty] obtain y0 where y0: "y0 \<in> set ys" and ym: "\<bar>y0\<bar> = m"
    unfolding m by auto
  from each [OF y0] ym have "5 - 1 / 2 ^ 20 \<le> \<bar>g y0\<bar>" by simp
  also have "\<bar>g y0\<bar> \<le> Max (abs ` set ?zs)"
    by (rule Max_ge [OF zfin]) (use y0 in simp)
  finally have low: "5 - 1 / 2 ^ 20 \<le> Max (abs ` set ?zs)" .
  from up low have "\<bar>Max (abs ` set ?zs) - 5\<bar> \<le> 1 / 2 ^ 20" by linarith
  with maps zne show ?thesis by blast
qed

text \<open>The roundings the concrete installation meets.\<close>

lemma round32_3: "round32 3 = Fin 3"
  by (subst round32_at [of "1"]) (simp_all add: rne_def Let_def)

lemma round32_4: "round32 4 = Fin 4"
  by (subst round32_at [of "2"]) (simp_all add: rne_def Let_def)

lemma round32_5: "round32 5 = Fin 5"
  by (subst round32_at [of "2"]) (simp_all add: rne_def Let_def)

lemma round32_6: "round32 6 = Fin 6"
  by (subst round32_at [of "2"]) (simp_all add: rne_def Let_def)

lemma round32_12: "round32 12 = Fin 12"
  by (subst round32_at [of "3"]) (simp_all add: rne_def Let_def)

lemma round32_5_12: "round32 (5 / 12) = Fin (13981013 / 33554432)"
  by (subst round32_at [of "- 2"]) (simp_all add: rne_def Let_def)

lemma round32_5_39: "round32 (5 / 39) = Fin (8603701 / 67108864)"
  by (subst round32_at [of "- 3"]) (simp_all add: rne_def Let_def)

lemma round32_3c: "round32 (41943039 / 33554432) = Fin (5 / 4)"
  by (subst round32_at [of "0"]) (simp_all add: rne_def Let_def)

lemma round32_6c: "round32 (41943039 / 16777216) = Fin (5 / 2)"
  by (subst round32_at [of "1"]) (simp_all add: rne_def Let_def)

lemma round32_5c: "round32 (69905065 / 33554432) = Fin (8738133 / 4194304)"
  by (subst round32_at [of "1"]) (simp_all add: rne_def Let_def)

lemma round32_12c: "round32 (41943039 / 8388608) = Fin 5"
  by (subst round32_at [of "2"]) (simp_all add: rne_def Let_def)

lemma round32_14c: "round32 (60225907 / 33554432) = Fin (15056477 / 8388608)"
  by (subst round32_at [of "0"]) (simp_all add: rne_def Let_def)

lemma round32_39c: "round32 (335544339 / 67108864) = Fin (10485761 / 2097152)"
  by (subst round32_at [of "2"]) (simp_all add: rne_def Let_def)

lemmas demo_round =
  round32_3 round32_4 round32_5 round32_6 round32_12 round32_5_12 round32_5_39
  round32_3c round32_6c round32_5c round32_12c round32_14c round32_39c

subsection \<open>Running the concrete installation\<close>

lemma demo_fields:
  "jit_load demo_ext = (\<lambda>p. if p = ''/m/rave.ts'' then Inr 0 else Inl (Failure ''no such file''))"
  "listdir demo_ext = (\<lambda>d. if d = ''/snd'' then Inr [''kick.wav'', ''notes.txt'', ''Snare.WAV'']
                      else if d = ''/short'' then Inr [''blip.wav'']
                      else if d = ''/one'' then Inr [''tick.wav'']
                      else if d = ''/empty'' then Inr [''notes.txt'']
                      else Inl (Failure ''no such directory''))"
  "li_load demo_ext = (\<lambda>f sr. Inr (demo_samples f))"
  "rave_encode demo_ext = demo_encode"
  "np_mean1 demo_ext = demo_mean"
  "tsne_fit_transform demo_ext = first_columns"
  "umap_fit_transform demo_ext = first_columns"
  "pca_fit_transform demo_ext = first_columns"
  "abspath demo_ext = (\<lambda>p. ''/cwd/'' @ p)"
  "open_w demo_ext = (\<lambda>p. None)"
  by (simp_all add: demo_ext_def)

lemma demo_lower:
  "lower ''kick.wav'' = ''kick.wav''"
  "lower ''notes.txt'' = ''notes.txt''"
  "lower ''Snare.WAV'' = ''snare.wav''"
  "lower ''blip.wav'' = ''blip.wav''"
  "lower ''tick.wav'' = ''tick.wav''"
  "lower ''out'' = ''out''"
  "lower ''/tmp/short.json'' = ''/tmp/short.json''"
  "lower ''/tmp/one.json'' = ''/tmp/one.json''"
  by code_simp+

lemma demo_keys:
  "file_key_of ''/snd/kick.wav'' = ''kick''"
  "file_key_of ''/snd/Snare.WAV'' = ''Snare''"
  "file_key_of ''/short/blip.wav'' = ''blip''"
  "file_key_of ''/one/tick.wav'' = ''tick''"
  by code_simp+

lemmas demo_eval =
  demo_fields demo_lower demo_keys demo_samples_def demo_encode_def demo_mean_def demo_round
  first_columns_def
  encode_file_def squeeze_def ndim_def np_mean_axis1_def np_array_def np_abs_max_def np_mul_def
  np_row_def rescale_def reduction_def save_output_def resolve_output_json_def py_str_def
  basename_def isabs_def startswith_def endswith_def os_path_join_def client_and_address_def
  print_def send_message_def json_dump_def w0_def Let_def upt_rec

lemma demo_snd_files:
  "filter (\<lambda>f. endswith (lower f) ''.wav'') [''kick.wav'', ''notes.txt'', ''Snare.WAV'']
     = [''kick.wav'', ''Snare.WAV'']"
  by (simp add: demo_lower endswith_def)

lemma demo_snd_encoded:
  "encode_all demo_ext 0 sr
     (map (os_path_join ''/snd'')
        (filter (\<lambda>f. endswith (lower f) ''.wav'') [''kick.wav'', ''notes.txt'', ''Snare.WAV'']))
     ([], [], None)
   = Inr ([(''kick'', NDArray [2] [Fin 3, Fin 6]), (''Snare'', NDArray [2] [Fin 5, Fin 12])],
          [NDArray [2] [Fin 3, Fin 6], NDArray [2] [Fin 5, Fin 12]], Some 2)"
  unfolding demo_snd_files by (simp add: demo_eval)

lemma demo_short_encoded:
  "encode_all demo_ext 0 sr
     (map (os_path_join ''/short'') (filter (\<lambda>f. endswith (lower f) ''.wav'') [''blip.wav'']))
     ([], [], None)
   = Inr ([(''blip'', NDArray [2] [Fin 8, Fin 21])], [NDArray [2] [Fin 8, Fin 21]], Some 1)"
  by (simp add: demo_eval)

lemma demo_load: "jit_load demo_ext ''/m/rave.ts'' = Inr 0"
  by (simp add: demo_fields)

lemma demo_ls:
  "listdir demo_ext ''/snd'' = Inr [''kick.wav'', ''notes.txt'', ''Snare.WAV'']"
  "listdir demo_ext ''/short'' = Inr [''blip.wav'']"
  "listdir demo_ext ''/empty'' = Inr [''notes.txt'']"
  "listdir demo_ext ''/one'' = Inr [''tick.wav'']"
  by (simp_all add: demo_fields)

lemma demo_snd_nonempty:
  "filter (\<lambda>f. endswith (lower f) ''.wav'') [''kick.wav'', ''notes.txt'', ''Snare.WAV''] \<noteq> []"
  unfolding demo_snd_files by simp

lemma demo_short_nonempty:
  "filter (\<lambda>f. endswith (lower f) ''.wav'') [''blip.wav''] \<noteq> []"
  by (simp add: demo_lower endswith_def)

lemmas demo_snd_run =
  process_unfold [OF demo_load demo_ls(1) demo_snd_nonempty demo_snd_encoded]

lemmas demo_short_run =
  process_unfold [OF demo_load demo_ls(2) demo_short_nonempty demo_short_encoded]

lemma demo_run_tsne:
  "process_audio_files demo_ext ''/m/rave.ts'' ''/snd'' (Some (OscStr ''out'')) requested 48000
       (OscStr ''tsne'') False (Some demo_client) (Some ''/rave/processing/done'') w0
   = (Inr (Some ''/cwd/out.json''),
      \<lparr>files = [(''/cwd/out.json'',
                 \<lparr>cols = Some 2,
                  data = [(''kick'', NDArray [2] [Fin 3, Fin 6]), (''Snare'', NDArray [2] [Fin 5, Fin 12])],
                  reduced_data =
                    Some [(''kick'', NDArray [2] [Fin (5 / 4), Fin (5 / 2)]),
                          (''Snare'', NDArray [2] [Fin (8738133 / 4194304), Fin 5])]\<rparr>)],
       sent = [(''/rave/processing/done'', OscStr ''/cwd/out.json'')],
       console = [LoadingModel ''/m/rave.ts'', EncodingFiles, PerformingTSNE,
                  SavedTo ''/cwd/out.json'',
                  SentPath ''/rave/processing/done'' ''/cwd/out.json''],
       threads = []\<rparr>)"
  by (simp add: demo_snd_run demo_eval)

lemma demo_run_short:
  "process_audio_files demo_ext ''/m/rave.ts'' ''/short'' (Some (OscStr ''/tmp/short.json''))
       requested 48000 (OscStr ''pca'') True (Some demo_client)
       (Some ''/rave/processing/done'') w0
   = (Inr (Some ''/tmp/short.json''),
      \<lparr>files = [(''/tmp/short.json'',
                 \<lparr>cols = Some 1, data = [(''blip'', NDArray [2] [Fin 8, Fin 21])],
                  reduced_data = None\<rparr>)],
       sent = [(''/rave/processing/done'', OscStr ''/tmp/short.json'')],
       console = [LoadingModel ''/m/rave.ts'', EncodingFiles, SavedTo ''/tmp/short.json'',
                  SentPath ''/rave/processing/done'' ''/tmp/short.json''],
       threads = []\<rparr>)"
  by (simp add: demo_short_run demo_eval)

lemma demo_matrix:
  "np_array [NDArray [2] [Fin 3, Fin 6], NDArray [2] [Fin 5, Fin 12]] = Inr (NDArray [2, 2] [Fin 3, Fin 6, Fin 5, Fin 12])"
  by (simp add: np_array_def)

lemma demo_fit:
  "first_columns 2 (NDArray [2, 2] [Fin 3, Fin 6, Fin 5, Fin 12]) = Inr (NDArray [2, 2] [Fin 3, Fin 6, Fin 5, Fin 12])"
  by (simp add: first_columns_def upt_rec)

lemma sum_list_const:
  fixes n :: nat
  assumes "\<And>x. x \<in> set xs \<Longrightarrow> f x = n"
  shows "sum_list (map f xs) = length xs * n"
  using assms by (induction xs) auto

lemma first_columns_contract:
  "\<forall>n X r. first_columns n X = Inr r \<longrightarrow> wf_array r \<and> (\<exists>rows. shape r = [rows, n])"
proof (intro allI impI)
  fix n X r
  assume a: "first_columns n X = Inr r"
  then obtain rows c where sh: "shape X = [rows, c]"
    by (auto simp: first_columns_def split: list.splits)
  from a sh have nc: "n \<le> c" and len: "length (elems X) = rows * c"
    and r: "r = NDArray [rows, n]
                  (concat (map (\<lambda>i. take n (drop (i * c) (elems X))) [0..<rows]))"
    by (auto simp: first_columns_def split: if_splits)
  have each: "length (take n (drop (i * c) (elems X))) = n" if "i < rows" for i
  proof -
    from that have "Suc i \<le> rows" by simp
    then have "Suc i * c \<le> rows * c" by (rule mult_le_mono1)
    then have "c \<le> rows * c - i * c" by simp
    with nc len show ?thesis by simp
  qed
  have "length (concat (map (\<lambda>i. take n (drop (i * c) (elems X))) [0..<rows]))
          = (\<Sum>i\<leftarrow>[0..<rows]. length (take n (drop (i * c) (elems X))))"
    by (simp only: length_concat map_map comp_def)
  also have "\<dots> = length [0..<rows] * n"
    by (rule sum_list_const) (simp only: each set_upt atLeastLessThan_iff)
  finally have "length (elems r) = rows * n"
    unfolding r by simp
  then show "wf_array r \<and> (\<exists>rows. shape r = [rows, n])"
    using r by (simp add: wf_array_def)
qed

subsection \<open>Empty input\<close>

text \<open>
  Claim C4. When the listing of the audio directory holds no name that ends in \<open>.wav\<close>
  after lowering, the call writes no file and sends no message, and it does not return an
  output path (it returns \<open>None\<close>, or the model load raised before the listing).
\<close>

theorem no_audio_no_artifact:
  assumes "listdir ext audio_dir = Inr entries"
      and "\<forall>f\<in>set entries. \<not> endswith (lower f) ''.wav''"
  shows "\<exists>r w'. process_audio_files ext model_path audio_dir output_json n_components sr method
                  skip_dim_reduction osc_client osc_address w = (r, w')
           \<and> files w' = files w \<and> sent w' = sent w \<and> (\<forall>p. r \<noteq> Inr (Some p))"
proof -
  have none: "filter (\<lambda>f. endswith (lower f) ''.wav'') entries = []"
    using assms(2) by (simp add: filter_empty_conv)
  show ?thesis
  proof (cases "jit_load ext model_path")
    case (Inl e)
    then show ?thesis by (simp add: process_audio_files_def print_def)
  next
    case (Inr rave)
    then show ?thesis
      using assms(1) none by (simp add: process_audio_files_def print_def)
  qed
qed

theorem no_audio_no_artifact_witness:
  "\<exists>r w'. process_thread demo_ext demo_client
             \<lparr>job_model_path = ''/m/rave.ts'', job_audio_dir = ''/empty'',
              job_output_json = None, job_method = OscStr ''pca'',
              job_skip_dim_reduction = False\<rparr> w0 = (r, w')
     \<and> files w' = [] \<and> sent w' = [] \<and> (\<forall>p. r \<noteq> Inr (Some p))"
proof -
  have none: "\<forall>f\<in>set [''notes.txt'']. \<not> endswith (lower f) ''.wav''"
    by (simp add: demo_lower endswith_def)
  show ?thesis
    using no_audio_no_artifact [of demo_ext "''/empty''" "[''notes.txt'']" "''/m/rave.ts''"
        None 2 48000 "OscStr ''pca''" False "Some demo_client"
        "Some ''/rave/processing/done''" w0, OF demo_ls(3) none]
    by (simp add: process_thread_def w0_def)
qed

subsection \<open>The artifact\<close>

text \<open>
  Claim C5. In every completed job (the call returned an output path) exactly one file
  was written, at that path; it holds \<open>reduced_data\<close> if and only if the skip flag was
  not set, and then the keys of \<open>reduced_data\<close> are the keys of \<open>data\<close>.
\<close>

theorem reduced_data_iff_not_skipped:
  assumes "process_audio_files ext model_path audio_dir output_json n_components sr method
             skip_dim_reduction osc_client osc_address w = (Inr (Some path), w')"
  shows "\<exists>art. files w' = files w @ [(path, art)]
           \<and> (reduced_data art \<noteq> None \<longleftrightarrow> \<not> skip_dim_reduction)
           \<and> (\<forall>rd. reduced_data art = Some rd \<longrightarrow> fst ` set rd = fst ` set (data art))"
proof (rule process_completed [OF assms])
  fix rave :: 'a and entries ld lv nd red w2
  assume skip: "skip_dim_reduction \<Longrightarrow> red = None"
    and noskip: "\<not> skip_dim_reduction \<Longrightarrow>
           \<exists>rd w3. reduction ext method ld lv w2 = (Inr rd, w3) \<and> red = Some rd"
    and f: "files w' = files w @ [(path, \<lparr>cols = nd, data = ld, reduced_data = red\<rparr>)]"
  let ?art = "\<lparr>cols = nd, data = ld, reduced_data = red\<rparr>"
  have a: "reduced_data ?art \<noteq> None \<longleftrightarrow> \<not> skip_dim_reduction"
  proof (cases skip_dim_reduction)
    case True
    then show ?thesis using skip by simp
  next
    case False
    from noskip [OF this] show ?thesis using False by auto
  qed
  have b: "\<forall>rd. reduced_data ?art = Some rd \<longrightarrow> fst ` set rd = fst ` set (data ?art)"
  proof (intro allI impI)
    fix rd
    assume s: "reduced_data ?art = Some rd"
    then have r: "red = Some rd" by simp
    have "\<not> skip_dim_reduction"
    proof
      assume "skip_dim_reduction"
      from skip [OF this] r show False by simp
    qed
    from noskip [OF this] r obtain w3 where "reduction ext method ld lv w2 = (Inr rd, w3)"
      by auto
    from reduction_keys [OF this] show "fst ` set rd = fst ` set (data ?art)" by simp
  qed
  show ?thesis
    by (rule exI [of _ ?art]) (intro conjI f a b)
qed

theorem reduced_data_iff_not_skipped_witness:
  "(\<exists>art. files (snd (process_audio_files demo_ext ''/m/rave.ts'' ''/snd''
               (Some (OscStr ''out'')) 2 48000 (OscStr ''tsne'') False (Some demo_client)
               (Some ''/rave/processing/done'') w0)) = [(''/cwd/out.json'', art)]
      \<and> reduced_data art \<noteq> None
      \<and> (\<forall>rd. reduced_data art = Some rd \<longrightarrow> fst ` set rd = fst ` set (data art)))
   \<and> (\<exists>art. files (snd (process_audio_files demo_ext ''/m/rave.ts'' ''/short''
               (Some (OscStr ''/tmp/short.json'')) 2 48000 (OscStr ''pca'') True
               (Some demo_client) (Some ''/rave/processing/done'') w0))
             = [(''/tmp/short.json'', art)]
      \<and> reduced_data art = None)"
proof -
  from reduced_data_iff_not_skipped [OF demo_run_tsne [of 2]]
  have a: "\<exists>art. files (snd (process_audio_files demo_ext ''/m/rave.ts'' ''/snd''
               (Some (OscStr ''out'')) 2 48000 (OscStr ''tsne'') False (Some demo_client)
               (Some ''/rave/processing/done'') w0)) = [(''/cwd/out.json'', art)]
      \<and> reduced_data art \<noteq> None
      \<and> (\<forall>rd. reduced_data art = Some rd \<longrightarrow> fst ` set rd = fst ` set (data art))"
    unfolding demo_run_tsne by (simp add: w0_def)
  from reduced_data_iff_not_skipped [OF demo_run_short [of 2]]
  have b: "\<exists>art. files (snd (process_audio_files demo_ext ''/m/rave.ts'' ''/short''
               (Some (OscStr ''/tmp/short.json'')) 2 48000 (OscStr ''pca'') True
               (Some demo_client) (Some ''/rave/processing/done'') w0))
             = [(''/tmp/short.json'', art)]
      \<and> reduced_data art = None"
    unfolding demo_run_short by (simp add: w0_def)
  from a b show ?thesis by (rule conjI)
qed

text \<open>
  Claim C2, at an input where it fails. A sound file that encodes to a single frame,
  shape (1, 2, 1), is squeezed to a vector of length 2 and takes the rank-1 branch, which
  sets \<open>num_dimensions = 1\<close> although its comment says "use z's length as
  num_dimensions": the artifact declares \<open>cols = 1\<close> and stores a vector of length 2.
\<close>

theorem cols_differs_from_vector_length:
  "process_thread demo_ext demo_client
     \<lparr>job_model_path = ''/m/rave.ts'', job_audio_dir = ''/short'',
      job_output_json = Some (OscStr ''/tmp/short.json''),
      job_method = OscStr ''pca'', job_skip_dim_reduction = True\<rparr> w0
   = (Inr (Some ''/tmp/short.json''),
      \<lparr>files = [(''/tmp/short.json'',
                 \<lparr>cols = Some 1, data = [(''blip'', NDArray [2] [Fin 8, Fin 21])],
                  reduced_data = None\<rparr>)],
       sent = [(''/rave/processing/done'', OscStr ''/tmp/short.json'')],
       console = [LoadingModel ''/m/rave.ts'', EncodingFiles, SavedTo ''/tmp/short.json'',
                  SentPath ''/rave/processing/done'' ''/tmp/short.json''],
       threads = []\<rparr>)"
  unfolding process_thread_def by (simp add: demo_short_run demo_eval)

subsection \<open>Per-file encoding\<close>

text \<open>An axis of length 0 raises nothing: each mean is the mean of the empty slice.\<close>

lemma mean_of_empty_axis:
  "np_mean_axis1 mean1 (NDArray [2, 0] []) = Inr (NDArray [2] [mean1 [], mean1 []])"
  by (simp add: np_mean_axis1_def upt_rec)

text \<open>
  What the loop body stores, by the rank of \<open>z\<close> after \<open>squeeze()\<close>: a vector as it
  is; a matrix of shape \<open>(D, T)\<close> as its \<open>D\<close> row means.
\<close>

lemma mean_rows:
  assumes "shape z = [D, T]"
  shows "np_mean_axis1 mean1 z
           = Inr (NDArray [D] (map (\<lambda>d. mean1 (map (\<lambda>t. elems z ! (d * T + t)) [0..<T])) [0..<D]))"
  using assms by (simp add: np_mean_axis1_def)

lemma encode_file_by_rank:
  assumes loaded: "li_load ext audio_file sr = Inr x"
      and encoded: "rave_encode ext rave x = Inr z0"
  shows "ndim (squeeze z0) = 1 \<Longrightarrow>
           encode_file ext rave sr audio_file (latent_data, latent_vectors_all, nd)
             = Inr (AList.update (file_key_of audio_file) (squeeze z0) latent_data,
                    latent_vectors_all @ [squeeze z0], (if nd = None then Some 1 else nd))"
    and "shape (squeeze z0) = [D, T] \<Longrightarrow>
           encode_file ext rave sr audio_file (latent_data, latent_vectors_all, nd)
             = (let v = NDArray [D]
                          (map (\<lambda>d. np_mean1 ext (map (\<lambda>t. elems (squeeze z0) ! (d * T + t)) [0..<T]))
                             [0..<D])
                in Inr (AList.update (file_key_of audio_file) v latent_data,
                        latent_vectors_all @ [v], (if nd = None then Some D else nd)))"
proof -
  show "ndim (squeeze z0) = 1 \<Longrightarrow>
           encode_file ext rave sr audio_file (latent_data, latent_vectors_all, nd)
             = Inr (AList.update (file_key_of audio_file) (squeeze z0) latent_data,
                    latent_vectors_all @ [squeeze z0], (if nd = None then Some 1 else nd))"
    using loaded encoded by (simp add: encode_file_def Let_def)
  assume sh: "shape (squeeze z0) = [D, T]"
  then have rank: "ndim (squeeze z0) \<noteq> 1" by (simp add: ndim_def)
  show "encode_file ext rave sr audio_file (latent_data, latent_vectors_all, nd)
             = (let v = NDArray [D]
                          (map (\<lambda>d. np_mean1 ext (map (\<lambda>t. elems (squeeze z0) ! (d * T + t)) [0..<T]))
                             [0..<D])
                in Inr (AList.update (file_key_of audio_file) v latent_data,
                        latent_vectors_all @ [v], (if nd = None then Some D else nd)))"
    using loaded encoded rank sh mean_rows [OF sh, of "np_mean1 ext"]
    by (simp add: encode_file_def Let_def)
qed

lemma mono_fields:
  "li_load mono_ext = (\<lambda>f sr. Inr (demo_samples f))"
  "rave_encode mono_ext = mono_encode"
  "np_mean1 mono_ext = demo_mean"
  by (simp_all add: mono_ext_def demo_ext_def)

text \<open>
  Claim C7, at an input where it fails. A model of latent width 1 encodes a sound file
  of three samples to a tensor of shape (1, 1, 3): one dimension, three timesteps.
  Removing the batch dimension leaves shape (1, 3), rank 2, whose mean across the
  timestep axis is the vector \<open>[4]\<close>. But \<open>squeeze()\<close> removes the dimension axis too,
  the result has rank 1, and the three timesteps are stored unaveraged as the file's
  latent vector.
\<close>

theorem time_axis_stored_unaveraged:
  "rave_encode mono_ext 0 [2, 4, 6] = Inr (NDArray [1, 1, 3] [Fin 2, Fin 4, Fin 6])
   \<and> encode_file mono_ext 0 48000 ''/snd/Snare.WAV'' ([], [], None)
       = Inr ([(''Snare'', NDArray [3] [Fin 2, Fin 4, Fin 6])],
              [NDArray [3] [Fin 2, Fin 4, Fin 6]], Some 1)
   \<and> np_mean_axis1 (np_mean1 mono_ext) (NDArray [1, 3] [Fin 2, Fin 4, Fin 6])
       = Inr (NDArray [1] [Fin 4])"
proof (intro conjI)
  show "rave_encode mono_ext 0 [2, 4, 6] = Inr (NDArray [1, 1, 3] [Fin 2, Fin 4, Fin 6])"
    by (simp add: mono_fields mono_encode_def)
  show "encode_file mono_ext 0 48000 ''/snd/Snare.WAV'' ([], [], None)
       = Inr ([(''Snare'', NDArray [3] [Fin 2, Fin 4, Fin 6])],
              [NDArray [3] [Fin 2, Fin 4, Fin 6]], Some 1)"
    by (simp add: encode_file_def mono_fields mono_encode_def demo_samples_def demo_keys
          squeeze_def ndim_def Let_def)
  show "np_mean_axis1 (np_mean1 mono_ext) (NDArray [1, 3] [Fin 2, Fin 4, Fin 6])
       = Inr (NDArray [1] [Fin 4])"
    by (simp add: np_mean_axis1_def mono_fields demo_mean_def upt_rec round32_4)
qed

subsection \<open>Dimensionality reduction\<close>

text \<open>
  Claim C1, at an input where it fails. With the selector \<open>"kmeans"\<close> the job does not
  fail: it prints "Performing PCA", stores the coordinates PCA returned, writes the
  artifact and sends the completion message.
\<close>

theorem unknown_method_counterexample:
  "process_thread demo_ext demo_client
     \<lparr>job_model_path = ''/m/rave.ts'', job_audio_dir = ''/snd'', job_output_json = None,
      job_method = OscStr ''kmeans'', job_skip_dim_reduction = False\<rparr> w0
   = (Inr (Some ''/cwd/2D_kmeans_latent_mapping_rave.json''),
      \<lparr>files = [(''/cwd/2D_kmeans_latent_mapping_rave.json'',
                 \<lparr>cols = Some 2,
                  data = [(''kick'', NDArray [2] [Fin 3, Fin 6]), (''Snare'', NDArray [2] [Fin 5, Fin 12])],
                  reduced_data =
                    Some [(''kick'', NDArray [2] [Fin 3, Fin 6]), (''Snare'', NDArray [2] [Fin 5, Fin 12])]\<rparr>)],
       sent = [(''/rave/processing/done'',
                OscStr ''/cwd/2D_kmeans_latent_mapping_rave.json'')],
       console = [LoadingModel ''/m/rave.ts'', EncodingFiles, PerformingPCA,
                  SavedTo ''/cwd/2D_kmeans_latent_mapping_rave.json'',
                  SentPath ''/rave/processing/done''
                    ''/cwd/2D_kmeans_latent_mapping_rave.json''],
       threads = []\<rparr>)"
  unfolding process_thread_def by (simp add: demo_snd_run demo_eval)

text \<open>
  Claim C1 as amended. Every selector other than \<open>"tsne"\<close> and \<open>"umap"\<close> takes the
  last branch: the stage does what it does for \<open>"pca"\<close>, that is, it fits PCA with two
  components and stores its rows unscaled; no error is raised for the selector.
\<close>

theorem unrecognised_method_runs_pca:
  assumes "method \<noteq> OscStr ''tsne''" and "method \<noteq> OscStr ''umap''"
  shows "reduction ext method latent_data latent_vectors_all w
           = reduction ext (OscStr ''pca'') latent_data latent_vectors_all w
       \<and> reduction ext method latent_data latent_vectors_all w
           = (case np_array latent_vectors_all of
                Inl e \<Rightarrow> (Inl e, w)
              | Inr latent_matrix \<Rightarrow>
                  (case pca_fit_transform ext 2 latent_matrix of
                     Inl e \<Rightarrow> Inl e
                   | Inr latent_reduced \<Rightarrow>
                       fill_reduced latent_reduced 0 (map fst latent_data) [],
                   print PerformingPCA w))"
  using assms by (simp add: reduction_def Let_def split: sum.splits)

theorem unrecognised_method_runs_pca_witness:
  "reduction demo_ext (OscStr ''kmeans'') [(''kick'', NDArray [2] [Fin 3, Fin 6])] [NDArray [2] [Fin 3, Fin 6]] w0
     = reduction demo_ext (OscStr ''pca'') [(''kick'', NDArray [2] [Fin 3, Fin 6])] [NDArray [2] [Fin 3, Fin 6]] w0
   \<and> reduction demo_ext (OscStr ''kmeans'') [(''kick'', NDArray [2] [Fin 3, Fin 6])] [NDArray [2] [Fin 3, Fin 6]] w0
     = (Inr [(''kick'', NDArray [2] [Fin 3, Fin 6])], print PerformingPCA w0)"
proof -
  have a: "OscStr ''kmeans'' \<noteq> OscStr ''tsne''" and b: "OscStr ''kmeans'' \<noteq> OscStr ''umap''"
    by simp_all
  show ?thesis
    using unrecognised_method_runs_pca [OF a b, of demo_ext "[(''kick'', NDArray [2] [Fin 3, Fin 6])]"
        "[NDArray [2] [Fin 3, Fin 6]]" w0]
    by (simp add: reduction_def np_array_def demo_fields first_columns_def np_row_def upt_rec)
qed

lemma np_abs_max_fin:
  assumes "np_abs_max r = Inr (Fin m)"
  shows "\<exists>ys. ys \<noteq> [] \<and> elems r = map Fin ys \<and> m = Max (abs ` set ys)"
proof -
  from assms obtain x xs where el: "elems r = x # xs"
    and f: "foldl f32_max (f32_abs x) (map f32_abs xs) = Fin m"
    by (auto simp: np_abs_max_def split: list.splits)
  have "f32_abs x \<noteq> NInf" by (cases x) simp_all
  from abs_max_fin_only [OF f this] obtain b ys where b: "f32_abs x = Fin b"
    and xs: "xs = map Fin ys" and m: "m = Max (insert b (abs ` set ys))" by blast
  from b obtain y where x: "x = Fin y" and y: "b = \<bar>y\<bar>" by (cases x) simp_all
  show ?thesis
    by (rule exI [of _ "y # ys"]) (simp add: el x xs m y)
qed

lemma np_abs_max_of_fin:
  assumes "zs \<noteq> []"
  shows "np_abs_max (NDArray sh (map Fin zs)) = Inr (Fin (Max (abs ` set zs)))"
proof -
  from assms obtain z zs' where zs: "zs = z # zs'" by (cases zs) auto
  have "np_abs_max (NDArray sh (map Fin zs))
          = Inr (foldl f32_max (Fin \<bar>z\<bar>) (map f32_abs (map Fin zs')))"
    unfolding zs np_abs_max_def by simp
  also have "\<dots> = Inr (Fin (Max (insert \<bar>z\<bar> (abs ` set zs'))))"
    by (simp only: abs_max_of_fin)
  finally show ?thesis by (simp add: zs)
qed

lemma rescale_near_five:
  assumes mx: "np_abs_max r = Inr (Fin m)" and lo: "2 powi (- 100) \<le> m" and hi: "m \<le> 2 ^ 100"
  shows "\<exists>v. np_abs_max (np_mul r (f32_div (Fin 5) (Fin m))) = Inr (Fin v)
           \<and> \<bar>v - 5\<bar> \<le> 1 / 2 ^ 20"
proof -
  from np_abs_max_fin [OF mx] obtain ys where ne: "ys \<noteq> []" and el: "elems r = map Fin ys"
    and m: "m = Max (abs ` set ys)" by blast
  from scaled_list_near_five [OF ne m lo hi] obtain zs
    where maps: "map (\<lambda>x. f32_mul x (f32_div (Fin 5) (Fin m))) (map Fin ys) = map Fin zs"
      and zne: "zs \<noteq> []" and near: "\<bar>Max (abs ` set zs) - 5\<bar> \<le> 1 / 2 ^ 20" by blast
  have "np_mul r (f32_div (Fin 5) (Fin m)) = NDArray (shape r) (map Fin zs)"
    unfolding np_mul_def el maps ..
  with np_abs_max_of_fin [OF zne, of "shape r"] near show ?thesis by simp
qed

lemma reduction_tsne:
  assumes "np_array lv = Inr X" and "tsne_fit_transform ext 2 X = Inr r"
      and "np_abs_max r = Inr max_val"
  shows "fst (reduction ext (OscStr ''tsne'') ld lv w)
           = fill_reduced (if max_val \<noteq> Fin 0 then np_mul r (f32_div (Fin 5) max_val) else r)
               0 (map fst ld) []"
  using assms by (simp add: reduction_def rescale_def)

lemma reduction_umap:
  assumes "np_array lv = Inr X" and "umap_fit_transform ext 2 X = Inr r"
      and "np_abs_max r = Inr max_val"
  shows "fst (reduction ext (OscStr ''umap'') ld lv w)
           = fill_reduced (if max_val \<noteq> Fin 0 then np_mul r (f32_div (Fin 5) max_val) else r)
               0 (map fst ld) []"
  using assms by (simp add: reduction_def rescale_def)

lemma demo_one_encoded:
  "encode_all demo_ext 0 sr
     (map (os_path_join ''/one'') (filter (\<lambda>f. endswith (lower f) ''.wav'') [''tick.wav'']))
     ([], [], None)
   = Inr ([(''tick'', NDArray [2] [Fin 14, Fin 39])], [NDArray [2] [Fin 14, Fin 39]], Some 1)"
  by (simp add: demo_eval)

lemma demo_one_nonempty:
  "filter (\<lambda>f. endswith (lower f) ''.wav'') [''tick.wav''] \<noteq> []"
  by (simp add: demo_lower endswith_def)

lemmas demo_one_run =
  process_unfold [OF demo_load demo_ls(4) demo_one_nonempty demo_one_encoded]

text \<open>
  Claim C3, at an input where it fails. A job with the selector \<open>"tsne"\<close> whose fit
  returns the single row (14, 39): the factor is 5 / 39 rounded to float32,
  8603701 / 2 ^ 26, and 39 times that factor rounded to float32 is 10485761 / 2 ^ 21,
  that is 5.000000476837158. The largest absolute coordinate of the stored
  \<open>reduced_data\<close> is that number, not 5.0.
\<close>

theorem scaled_maximum_is_not_five:
  "process_thread demo_ext demo_client
     \<lparr>job_model_path = ''/m/rave.ts'', job_audio_dir = ''/one'',
      job_output_json = Some (OscStr ''/tmp/one.json''),
      job_method = OscStr ''tsne'', job_skip_dim_reduction = False\<rparr> w0
   = (Inr (Some ''/tmp/one.json''),
      \<lparr>files = [(''/tmp/one.json'',
                 \<lparr>cols = Some 1, data = [(''tick'', NDArray [2] [Fin 14, Fin 39])],
                  reduced_data =
                    Some [(''tick'', NDArray [2] [Fin (15056477 / 8388608),
                                                  Fin (10485761 / 2097152)])]\<rparr>)],
       sent = [(''/rave/processing/done'', OscStr ''/tmp/one.json'')],
       console = [LoadingModel ''/m/rave.ts'', EncodingFiles, PerformingTSNE,
                  SavedTo ''/tmp/one.json'',
                  SentPath ''/rave/processing/done'' ''/tmp/one.json''],
       threads = []\<rparr>)
   \<and> tsne_fit_transform demo_ext 2 (NDArray [1, 2] [Fin 14, Fin 39])
       = Inr (NDArray [1, 2] [Fin 14, Fin 39])
   \<and> np_abs_max (NDArray [1, 2] [Fin 14, Fin 39]) = Inr (Fin 39)
   \<and> np_abs_max (NDArray [1, 2] [Fin (15056477 / 8388608), Fin (10485761 / 2097152)])
       = Inr (Fin (10485761 / 2097152))
   \<and> (10485761 / 2097152 :: real) \<noteq> 5"
proof (intro conjI)
  show "process_thread demo_ext demo_client
     \<lparr>job_model_path = ''/m/rave.ts'', job_audio_dir = ''/one'',
      job_output_json = Some (OscStr ''/tmp/one.json''),
      job_method = OscStr ''tsne'', job_skip_dim_reduction = False\<rparr> w0
   = (Inr (Some ''/tmp/one.json''),
      \<lparr>files = [(''/tmp/one.json'',
                 \<lparr>cols = Some 1, data = [(''tick'', NDArray [2] [Fin 14, Fin 39])],
                  reduced_data =
                    Some [(''tick'', NDArray [2] [Fin (15056477 / 8388608),
                                                  Fin (10485761 / 2097152)])]\<rparr>)],
       sent = [(''/rave/processing/done'', OscStr ''/tmp/one.json'')],
       console = [LoadingModel ''/m/rave.ts'', EncodingFiles, PerformingTSNE,
                  SavedTo ''/tmp/one.json'',
                  SentPath ''/rave/processing/done'' ''/tmp/one.json''],
       threads = []\<rparr>)"
    unfolding process_thread_def by (simp add: demo_one_run demo_eval)
  show "tsne_fit_transform demo_ext 2 (NDArray [1, 2] [Fin 14, Fin 39])
       = Inr (NDArray [1, 2] [Fin 14, Fin 39])"
    by (simp add: demo_fields first_columns_def upt_rec)
  show "np_abs_max (NDArray [1, 2] [Fin 14, Fin 39]) = Inr (Fin 39)"
    by (simp add: np_abs_max_def)
  show "np_abs_max (NDArray [1, 2] [Fin (15056477 / 8388608), Fin (10485761 / 2097152)])
       = Inr (Fin (10485761 / 2097152))"
    by (simp add: np_abs_max_def)
  show "(10485761 / 2097152 :: real) \<noteq> 5"
    by simp
qed

text \<open>
  Claim C3 as amended. Let the latent vectors stack to a matrix, let the fit return \<open>r\<close>
  and let \<open>max_val\<close> be the largest absolute value in \<open>r\<close>. For \<open>"tsne"\<close> and
  \<open>"umap"\<close> the stored coordinates are the rows of \<open>r\<close> multiplied in float32 by the
  single factor \<open>5.0 / max_val\<close> when \<open>max_val\<close> is not 0, and the rows of \<open>r\<close> itself
  when it is 0. When \<open>max_val\<close> is a finite number between \<open>2 ^ -100\<close> and \<open>2 ^ 100\<close>,
  the largest absolute value of the scaled coordinates is within \<open>2 ^ -20\<close> of 5.0 (it
  need not be 5.0 itself). For \<open>"pca"\<close> the stored coordinates are the rows of \<open>r\<close>.
\<close>

theorem scaling_within_rounding:
  assumes stacked: "np_array latent_vectors_all = Inr latent_matrix"
  shows "(\<forall>r max_val. tsne_fit_transform ext 2 latent_matrix = Inr r
              \<and> np_abs_max r = Inr max_val \<longrightarrow>
            fst (reduction ext (OscStr ''tsne'') latent_data latent_vectors_all w)
              = fill_reduced
                  (if max_val \<noteq> Fin 0 then np_mul r (f32_div (Fin 5) max_val) else r)
                  0 (map fst latent_data) []
            \<and> (\<forall>m. max_val = Fin m \<and> 2 powi (- 100) \<le> m \<and> m \<le> 2 ^ 100 \<longrightarrow>
                 (\<exists>v. np_abs_max (np_mul r (f32_div (Fin 5) max_val)) = Inr (Fin v)
                    \<and> \<bar>v - 5\<bar> \<le> 1 / 2 ^ 20)))
       \<and> (\<forall>r max_val. umap_fit_transform ext 2 latent_matrix = Inr r
              \<and> np_abs_max r = Inr max_val \<longrightarrow>
            fst (reduction ext (OscStr ''umap'') latent_data latent_vectors_all w)
              = fill_reduced
                  (if max_val \<noteq> Fin 0 then np_mul r (f32_div (Fin 5) max_val) else r)
                  0 (map fst latent_data) []
            \<and> (\<forall>m. max_val = Fin m \<and> 2 powi (- 100) \<le> m \<and> m \<le> 2 ^ 100 \<longrightarrow>
                 (\<exists>v. np_abs_max (np_mul r (f32_div (Fin 5) max_val)) = Inr (Fin v)
                    \<and> \<bar>v - 5\<bar> \<le> 1 / 2 ^ 20)))
       \<and> (\<forall>r. pca_fit_transform ext 2 latent_matrix = Inr r \<longrightarrow>
            fst (reduction ext (OscStr ''pca'') latent_data latent_vectors_all w)
              = fill_reduced r 0 (map fst latent_data) [])"
proof (intro conjI allI impI)
  fix r max_val
  assume "tsne_fit_transform ext 2 latent_matrix = Inr r \<and> np_abs_max r = Inr max_val"
  then show "fst (reduction ext (OscStr ''tsne'') latent_data latent_vectors_all w)
      = fill_reduced (if max_val \<noteq> Fin 0 then np_mul r (f32_div (Fin 5) max_val) else r)
          0 (map fst latent_data) []"
    using reduction_tsne [OF stacked] by blast
next
  fix r max_val m
  assume "tsne_fit_transform ext 2 latent_matrix = Inr r \<and> np_abs_max r = Inr max_val"
    and "max_val = Fin m \<and> 2 powi (- 100) \<le> m \<and> m \<le> 2 ^ 100"
  then show "\<exists>v. np_abs_max (np_mul r (f32_div (Fin 5) max_val)) = Inr (Fin v)
      \<and> \<bar>v - 5\<bar> \<le> 1 / 2 ^ 20"
    using rescale_near_five [of r m] by simp
next
  fix r max_val
  assume "umap_fit_transform ext 2 latent_matrix = Inr r \<and> np_abs_max r = Inr max_val"
  then show "fst (reduction ext (OscStr ''umap'') latent_data latent_vectors_all w)
      = fill_reduced (if max_val \<noteq> Fin 0 then np_mul r (f32_div (Fin 5) max_val) else r)
          0 (map fst latent_data) []"
    using reduction_umap [OF stacked] by blast
next
  fix r max_val m
  assume "umap_fit_transform ext 2 latent_matrix = Inr r \<and> np_abs_max r = Inr max_val"
    and "max_val = Fin m \<and> 2 powi (- 100) \<le> m \<and> m \<le> 2 ^ 100"
  then show "\<exists>v. np_abs_max (np_mul r (f32_div (Fin 5) max_val)) = Inr (Fin v)
      \<and> \<bar>v - 5\<bar> \<le> 1 / 2 ^ 20"
    using rescale_near_five [of r m] by simp
next
  fix r
  assume "pca_fit_transform ext 2 latent_matrix = Inr r"
  then show "fst (reduction ext (OscStr ''pca'') latent_data latent_vectors_all w)
      = fill_reduced r 0 (map fst latent_data) []"
    using stacked by (simp add: reduction_def Let_def)
qed

theorem scaling_within_rounding_witness:
  "fst (reduction demo_ext (OscStr ''tsne'')
          [(''kick'', NDArray [2] [Fin 3, Fin 6]), (''Snare'', NDArray [2] [Fin 5, Fin 12])]
          [NDArray [2] [Fin 3, Fin 6], NDArray [2] [Fin 5, Fin 12]] w0)
     = Inr [(''kick'', NDArray [2] [Fin (5 / 4), Fin (5 / 2)]),
            (''Snare'', NDArray [2] [Fin (8738133 / 4194304), Fin 5])]
   \<and> (\<exists>v. np_abs_max (np_mul (NDArray [2, 2] [Fin 3, Fin 6, Fin 5, Fin 12])
                          (f32_div (Fin 5) (Fin 12))) = Inr (Fin v)
         \<and> \<bar>v - 5\<bar> \<le> 1 / 2 ^ 20)
   \<and> fst (reduction demo_ext (OscStr ''umap'')
          [(''kick'', NDArray [2] [Fin 3, Fin 6]), (''Snare'', NDArray [2] [Fin 5, Fin 12])]
          [NDArray [2] [Fin 3, Fin 6], NDArray [2] [Fin 5, Fin 12]] w0)
     = Inr [(''kick'', NDArray [2] [Fin (5 / 4), Fin (5 / 2)]),
            (''Snare'', NDArray [2] [Fin (8738133 / 4194304), Fin 5])]
   \<and> fst (reduction demo_ext (OscStr ''pca'')
          [(''kick'', NDArray [2] [Fin 3, Fin 6]), (''Snare'', NDArray [2] [Fin 5, Fin 12])]
          [NDArray [2] [Fin 3, Fin 6], NDArray [2] [Fin 5, Fin 12]] w0)
     = Inr [(''kick'', NDArray [2] [Fin 3, Fin 6]), (''Snare'', NDArray [2] [Fin 5, Fin 12])]"
proof -
  let ?X = "NDArray [2, 2] [Fin 3, Fin 6, Fin 5, Fin 12]"
  let ?ld = "[(''kick'', NDArray [2] [Fin 3, Fin 6]), (''Snare'', NDArray [2] [Fin 5, Fin 12])]"
  note rule = scaling_within_rounding [OF demo_matrix, of demo_ext ?ld w0]
  have mx: "np_abs_max ?X = Inr (Fin 12)" by (simp add: np_abs_max_def)
  have t: "tsne_fit_transform demo_ext 2 ?X = Inr ?X \<and> np_abs_max ?X = Inr (Fin 12)"
    by (simp add: demo_fields demo_fit mx)
  have u: "umap_fit_transform demo_ext 2 ?X = Inr ?X \<and> np_abs_max ?X = Inr (Fin 12)"
    by (simp add: demo_fields demo_fit mx)
  have p: "pca_fit_transform demo_ext 2 ?X = Inr ?X"
    by (simp add: demo_fields demo_fit)
  have range: "Fin 12 = Fin 12 \<and> 2 powi (- 100) \<le> (12::real) \<and> (12::real) \<le> 2 ^ 100"
    by simp
  from rule [THEN conjunct1, rule_format, OF t]
  have a: "fst (reduction demo_ext (OscStr ''tsne'') ?ld
                 [NDArray [2] [Fin 3, Fin 6], NDArray [2] [Fin 5, Fin 12]] w0)
        = Inr [(''kick'', NDArray [2] [Fin (5 / 4), Fin (5 / 2)]),
               (''Snare'', NDArray [2] [Fin (8738133 / 4194304), Fin 5])]"
    by (simp add: np_mul_def np_row_def demo_round)
  from rule [THEN conjunct1, rule_format, OF t, THEN conjunct2, rule_format, OF range]
  have b: "\<exists>v. np_abs_max (np_mul ?X (f32_div (Fin 5) (Fin 12))) = Inr (Fin v)
         \<and> \<bar>v - 5\<bar> \<le> 1 / 2 ^ 20" .
  from rule [THEN conjunct2, THEN conjunct1, rule_format, OF u]
  have c: "fst (reduction demo_ext (OscStr ''umap'') ?ld
                 [NDArray [2] [Fin 3, Fin 6], NDArray [2] [Fin 5, Fin 12]] w0)
        = Inr [(''kick'', NDArray [2] [Fin (5 / 4), Fin (5 / 2)]),
               (''Snare'', NDArray [2] [Fin (8738133 / 4194304), Fin 5])]"
    by (simp add: np_mul_def np_row_def demo_round)
  from rule [THEN conjunct2, THEN conjunct2, rule_format, OF p]
  have d: "fst (reduction demo_ext (OscStr ''pca'') ?ld
                 [NDArray [2] [Fin 3, Fin 6], NDArray [2] [Fin 5, Fin 12]] w0)
        = Inr [(''kick'', NDArray [2] [Fin 3, Fin 6]), (''Snare'', NDArray [2] [Fin 5, Fin 12])]"
    by (simp add: np_row_def)
  from a b c d show ?thesis by (intro conjI)
qed

lemma np_row_shape:
  assumes "np_row a i = Inr v" and "shape a = [n, k]"
  shows "shape v = [k]"
  using assms by (auto simp: np_row_def split: if_splits)

lemma np_row_length:
  assumes "np_row a i = Inr v" and "shape a = [n, k]" and "wf_array a"
  shows "length (elems v) = k"
proof -
  from assms(1,2) have i: "i < n" and v: "elems v = take k (drop (i * k) (elems a))"
    by (auto simp: np_row_def split: if_splits)
  from assms(2,3) have len: "length (elems a) = n * k" by (simp add: wf_array_def)
  from i have "Suc i \<le> n" by simp
  then have "Suc i * k \<le> n * k" by (rule mult_le_mono1)
  then have "k \<le> n * k - i * k" by simp
  then show ?thesis using v len by simp
qed

lemma rescale_shape:
  assumes "rescale r = Inr s"
  shows "shape s = shape r" and "wf_array r \<Longrightarrow> wf_array s"
  using assms
  by (auto simp: rescale_def np_abs_max_def np_mul_def wf_array_def split: if_splits list.splits)

lemma reduction_source:
  assumes "reduction ext method ld lv w = (Inr rd, w')"
  obtains X r s where "np_array lv = Inr X"
    and "tsne_fit_transform ext 2 X = Inr r \<or> umap_fit_transform ext 2 X = Inr r
           \<or> pca_fit_transform ext 2 X = Inr r"
    and "s = r \<or> rescale r = Inr s"
    and "fill_reduced s 0 (map fst ld) [] = Inr rd"
proof -
  obtain X where X: "np_array lv = Inr X"
    using assms by (cases "np_array lv") (simp_all add: reduction_def)
  show ?thesis
  proof (cases "method = OscStr ''tsne''")
    case True
    then obtain r where r: "tsne_fit_transform ext 2 X = Inr r"
      using assms X by (cases "tsne_fit_transform ext 2 X") (simp_all add: reduction_def)
    then obtain s where s: "rescale r = Inr s"
      using assms X True by (cases "rescale r") (simp_all add: reduction_def)
    have "fill_reduced s 0 (map fst ld) [] = Inr rd"
      using assms X True r s by (simp add: reduction_def)
    with X r s show ?thesis using that by blast
  next
    case nt: False
    show ?thesis
    proof (cases "method = OscStr ''umap''")
      case True
      then obtain r where r: "umap_fit_transform ext 2 X = Inr r"
        using assms X nt by (cases "umap_fit_transform ext 2 X") (simp_all add: reduction_def)
      then obtain s where s: "rescale r = Inr s"
        using assms X nt True by (cases "rescale r") (simp_all add: reduction_def)
      have "fill_reduced s 0 (map fst ld) [] = Inr rd"
        using assms X nt True r s by (simp add: reduction_def)
      with X r s show ?thesis using that by blast
    next
      case False
      then obtain r where r: "pca_fit_transform ext 2 X = Inr r"
        using assms X nt by (cases "pca_fit_transform ext 2 X") (simp_all add: reduction_def)
      have "fill_reduced r 0 (map fst ld) [] = Inr rd"
        using assms X nt False r by (simp add: reduction_def)
      with X r show ?thesis using that by blast
    qed
  qed
qed

lemma reduction_rows_width:
  assumes tsne: "\<forall>n X r. tsne_fit_transform ext n X = Inr r
                   \<longrightarrow> wf_array r \<and> (\<exists>rows. shape r = [rows, n])"
      and umap: "\<forall>n X r. umap_fit_transform ext n X = Inr r
                   \<longrightarrow> wf_array r \<and> (\<exists>rows. shape r = [rows, n])"
      and pca: "\<forall>n X r. pca_fit_transform ext n X = Inr r
                   \<longrightarrow> wf_array r \<and> (\<exists>rows. shape r = [rows, n])"
      and run: "reduction ext method ld lv w = (Inr rd, w')"
      and mem: "(k, v) \<in> set rd"
  shows "shape v = [2] \<and> length (elems v) = 2"
proof -
  from reduction_source [OF run]
  obtain X r s where fit: "tsne_fit_transform ext 2 X = Inr r \<or> umap_fit_transform ext 2 X = Inr r
           \<or> pca_fit_transform ext 2 X = Inr r"
    and s: "s = r \<or> rescale r = Inr s"
    and fill: "fill_reduced s 0 (map fst ld) [] = Inr rd"
    by blast
  from fit tsne umap pca have "wf_array r \<and> (\<exists>rows. shape r = [rows, 2])" by blast
  then obtain rows where wr: "wf_array r" and sr: "shape r = [rows, 2]" by blast
  from s have ws: "wf_array s" and ss: "shape s = [rows, 2]"
    using wr sr rescale_shape [of r s] by auto
  from fill_reduced_rows [OF fill mem] obtain j where "np_row s j = Inr v" by auto
  from np_row_shape [OF this ss] np_row_length [OF this ss ws] show ?thesis by simp
qed

text \<open>
  Claim C6. Let each reducer honour its interface: called with \<open>n_components = n\<close> it
  returns a well-formed matrix with \<open>n\<close> columns. Then in every completed job that
  reduces, each entry of \<open>reduced_data\<close> is a vector of length 2, and the job is the
  same whatever \<open>n_components\<close> the caller passed.
\<close>

theorem reduced_coordinates_have_width_two:
  assumes tsne: "\<forall>n X r. tsne_fit_transform ext n X = Inr r
                   \<longrightarrow> wf_array r \<and> (\<exists>rows. shape r = [rows, n])"
      and umap: "\<forall>n X r. umap_fit_transform ext n X = Inr r
                   \<longrightarrow> wf_array r \<and> (\<exists>rows. shape r = [rows, n])"
      and pca: "\<forall>n X r. pca_fit_transform ext n X = Inr r
                   \<longrightarrow> wf_array r \<and> (\<exists>rows. shape r = [rows, n])"
      and run: "process_audio_files ext model_path audio_dir output_json n_components sr method
                  False osc_client osc_address w = (Inr (Some path), w')"
  shows "\<exists>art rd. files w' = files w @ [(path, art)] \<and> reduced_data art = Some rd
           \<and> (\<forall>(k, v)\<in>set rd. shape v = [2] \<and> length (elems v) = 2)
           \<and> (\<forall>requested. process_audio_files ext model_path audio_dir output_json requested
                  sr method False osc_client osc_address w = (Inr (Some path), w'))"
proof (rule process_completed [OF run])
  fix rave :: 'a and entries ld lv nd red w2
  assume noskip: "\<not> False \<Longrightarrow>
           \<exists>rd w3. reduction ext method ld lv w2 = (Inr rd, w3) \<and> red = Some rd"
    and f: "files w' = files w @ [(path, \<lparr>cols = nd, data = ld, reduced_data = red\<rparr>)]"
  from noskip obtain rd w3 where r: "reduction ext method ld lv w2 = (Inr rd, w3)"
    and red: "red = Some rd" by blast
  let ?art = "\<lparr>cols = nd, data = ld, reduced_data = Some rd\<rparr>"
  have a: "files w' = files w @ [(path, ?art)]" using f red by simp
  have b: "reduced_data ?art = Some rd" by simp
  have c: "\<forall>(k, v)\<in>set rd. shape v = [2] \<and> length (elems v) = 2"
  proof (intro ballI, clarify)
    fix k v
    assume "(k, v) \<in> set rd"
    from reduction_rows_width [OF tsne umap pca r this]
    show "shape v = [2] \<and> length (elems v) = 2" .
  qed
  have d: "\<forall>requested. process_audio_files ext model_path audio_dir output_json requested
                  sr method False osc_client osc_address w = (Inr (Some path), w')"
    using run by (simp add: process_audio_files_def)
  show ?thesis
    by (rule exI [of _ ?art], rule exI [of _ rd]) (intro conjI a b c d)
qed

theorem reduced_coordinates_have_width_two_witness:
  "\<exists>art rd. files (snd (process_audio_files demo_ext ''/m/rave.ts'' ''/snd''
               (Some (OscStr ''out'')) 3 48000 (OscStr ''tsne'') False (Some demo_client)
               (Some ''/rave/processing/done'') w0)) = [(''/cwd/out.json'', art)]
     \<and> reduced_data art = Some rd
     \<and> (\<forall>(k, v)\<in>set rd. shape v = [2] \<and> length (elems v) = 2)
     \<and> process_audio_files demo_ext ''/m/rave.ts'' ''/snd''
               (Some (OscStr ''out'')) 7 48000 (OscStr ''tsne'') False (Some demo_client)
               (Some ''/rave/processing/done'') w0
       = process_audio_files demo_ext ''/m/rave.ts'' ''/snd''
               (Some (OscStr ''out'')) 3 48000 (OscStr ''tsne'') False (Some demo_client)
               (Some ''/rave/processing/done'') w0"
proof -
  have t: "\<forall>n X r. tsne_fit_transform demo_ext n X = Inr r
             \<longrightarrow> wf_array r \<and> (\<exists>rows. shape r = [rows, n])"
    and u: "\<forall>n X r. umap_fit_transform demo_ext n X = Inr r
             \<longrightarrow> wf_array r \<and> (\<exists>rows. shape r = [rows, n])"
    and p: "\<forall>n X r. pca_fit_transform demo_ext n X = Inr r
             \<longrightarrow> wf_array r \<and> (\<exists>rows. shape r = [rows, n])"
    using first_columns_contract by (simp_all add: demo_fields)
  from reduced_coordinates_have_width_two [OF t u p demo_run_tsne [of 3]]
  obtain art rd where f: "files
         \<lparr>files = [(''/cwd/out.json'',
                 \<lparr>cols = Some 2,
                  data = [(''kick'', NDArray [2] [Fin 3, Fin 6]), (''Snare'', NDArray [2] [Fin 5, Fin 12])],
                  reduced_data =
                    Some [(''kick'', NDArray [2] [Fin (5 / 4), Fin (5 / 2)]),
                          (''Snare'', NDArray [2] [Fin (8738133 / 4194304), Fin 5])]\<rparr>)],
       sent = [(''/rave/processing/done'', OscStr ''/cwd/out.json'')],
       console = [LoadingModel ''/m/rave.ts'', EncodingFiles, PerformingTSNE,
                  SavedTo ''/cwd/out.json'',
                  SentPath ''/rave/processing/done'' ''/cwd/out.json''],
       threads = []\<rparr> = files w0 @ [(''/cwd/out.json'', art)]"
    and r: "reduced_data art = Some rd"
    and w: "\<forall>(k, v)\<in>set rd. shape v = [2] \<and> length (elems v) = 2"
    and i: "\<forall>requested. process_audio_files demo_ext ''/m/rave.ts'' ''/snd''
               (Some (OscStr ''out'')) requested 48000 (OscStr ''tsne'') False
               (Some demo_client) (Some ''/rave/processing/done'') w0
             = (Inr (Some ''/cwd/out.json''),
      \<lparr>files = [(''/cwd/out.json'',
                 \<lparr>cols = Some 2,
                  data = [(''kick'', NDArray [2] [Fin 3, Fin 6]), (''Snare'', NDArray [2] [Fin 5, Fin 12])],
                  reduced_data =
                    Some [(''kick'', NDArray [2] [Fin (5 / 4), Fin (5 / 2)]),
                          (''Snare'', NDArray [2] [Fin (8738133 / 4194304), Fin 5])]\<rparr>)],
       sent = [(''/rave/processing/done'', OscStr ''/cwd/out.json'')],
       console = [LoadingModel ''/m/rave.ts'', EncodingFiles, PerformingTSNE,
                  SavedTo ''/cwd/out.json'',
                  SentPath ''/rave/processing/done'' ''/cwd/out.json''],
       threads = []\<rparr>)"
    by blast
  have f': "files (snd (process_audio_files demo_ext ''/m/rave.ts'' ''/snd''
               (Some (OscStr ''out'')) 3 48000 (OscStr ''tsne'') False (Some demo_client)
               (Some ''/rave/processing/done'') w0)) = [(''/cwd/out.json'', art)]"
    unfolding demo_run_tsne using f by (simp add: w0_def)
  have i': "process_audio_files demo_ext ''/m/rave.ts'' ''/snd''
               (Some (OscStr ''out'')) 7 48000 (OscStr ''tsne'') False (Some demo_client)
               (Some ''/rave/processing/done'') w0
       = process_audio_files demo_ext ''/m/rave.ts'' ''/snd''
               (Some (OscStr ''out'')) 3 48000 (OscStr ''tsne'') False (Some demo_client)
               (Some ''/rave/processing/done'') w0"
    using i [rule_format, of 7] i [rule_format, of 3] by (rule trans [OF _ sym])
  show ?thesis
    by (rule exI [of _ art], rule exI [of _ rd]) (intro conjI f' r w i')
qed

end
